theory Spec2Isabelle
  imports Complex_Main "HOL-Library.Sublist"
begin

section \<open>Strings and JavaScript values\<close>

text \<open>
  A \<^typ>\<open>string\<close> stands for a JavaScript string, one \<^typ>\<open>char\<close> per code unit.
  An argument that may be missing at run time (\<^verbatim>\<open>args[1]\<close> of a shorter array, an
  optional parameter) is a \<^typ>\<open>string option\<close>, \<^term>\<open>None\<close> being \<^verbatim>\<open>undefined\<close>.
\<close>

definition newline :: string where
  "newline = [CHR 0x0A]"

definition backslash :: string where
  "backslash = [CHR 0x5C]"

definition isWhiteSpace :: "char \<Rightarrow> bool" where
  \<comment> \<open>the code units that \<^verbatim>\<open>String.prototype.trim\<close> strips, among the first 256\<close>
  "isWhiteSpace c = (c \<in> {CHR 0x09, CHR 0x0A, CHR 0x0B, CHR 0x0C, CHR 0x0D, CHR 0x20, CHR 0xA0})"

definition trim :: "string \<Rightarrow> string" where
  "trim s = rev (dropWhile isWhiteSpace (rev (dropWhile isWhiteSpace s)))"

definition truthy :: "string option \<Rightarrow> bool" where
  \<comment> \<open>\<^verbatim>\<open>undefined\<close> and the empty string are the falsy values of a string argument\<close>
  "truthy v = (case v of None \<Rightarrow> False | Some s \<Rightarrow> s \<noteq> [])"

definition orElse :: "string option \<Rightarrow> string \<Rightarrow> string" where
  \<comment> \<open>\<^verbatim>\<open>v || d\<close>\<close>
  "orElse v d = (case v of None \<Rightarrow> d | Some s \<Rightarrow> if s = [] then d else s)"

definition orDefault :: "string option \<Rightarrow> string \<Rightarrow> string" where
  \<comment> \<open>a default parameter value: it replaces \<^verbatim>\<open>undefined\<close> only\<close>
  "orDefault v d = (case v of None \<Rightarrow> d | Some s \<Rightarrow> s)"

definition interp :: "string option \<Rightarrow> string" where
  \<comment> \<open>\<^verbatim>\<open>${v}\<close> inside a template literal\<close>
  "interp v = (case v of None \<Rightarrow> ''undefined'' | Some s \<Rightarrow> s)"

definition arg :: "string list \<Rightarrow> nat \<Rightarrow> string option" where
  \<comment> \<open>\<^verbatim>\<open>args[i]\<close> of a rest parameter\<close>
  "arg args i = (if i < length args then Some (args ! i) else None)"

section \<open>Tool results, confirmation and the environment of a tool\<close>

record ExecutionData =
  data_language :: string
  data_containerName :: "string option"
  data_executionTime :: string

record ToolResult =
  success :: bool
  outputText :: "string option"
  error :: "string option"
  data :: "ExecutionData option"

definition succeeded :: "string \<Rightarrow> ToolResult" where
  \<comment> \<open>\<^verbatim>\<open>{ success: true, output }\<close>\<close>
  "succeeded out = \<lparr>success = True, outputText = Some out, error = None, data = None\<rparr>"

definition failed :: "string \<Rightarrow> ToolResult" where
  \<comment> \<open>\<^verbatim>\<open>{ success: false, error }\<close>\<close>
  "failed msg = \<lparr>success = False, outputText = None, error = Some msg, data = None\<rparr>"

record ConfirmationOptions =
  operation :: string
  filename :: string
  showVSCodeOpen :: bool
  content :: "string option"

record ConfirmationResult =
  confirmed :: bool
  dontAskAgain :: bool
  feedback :: "string option"

record SessionFlags =
  fileOperations :: bool
  bashCommands :: bool
  allOperations :: bool

datatype ExecOutcome =
    Completed string string  \<comment> \<open>\<^verbatim>\<open>{ stdout, stderr }\<close>\<close>
  | Rejected string          \<comment> \<open>the promise rejects; the string is \<^verbatim>\<open>error.message\<close>\<close>

text \<open>
  \<^verbatim>\<open>testInputs[language]\<close> and \<^verbatim>\<open>configs[language.toLowerCase()]\<close> are property reads
  of object literals, so a name that every object inherits finds the inherited member, which is
  neither a string nor a configuration. A code value is therefore a text or such a member.
\<close>

datatype CodeValue =
    Text string
  | Member string  \<comment> \<open>the member of \<^verbatim>\<open>Object.prototype\<close> of that name\<close>

datatype Effect =
    Confirm ConfirmationOptions string  \<comment> \<open>a call of \<^verbatim>\<open>requestConfirmation\<close>\<close>
  | Exec string                         \<comment> \<open>a call of \<^verbatim>\<open>execAsync\<close>\<close>
  | Mkdtemp string                      \<comment> \<open>a call of \<^verbatim>\<open>mkdtemp\<close>, with its prefix\<close>
  | WriteFile string CodeValue          \<comment> \<open>a call of \<^verbatim>\<open>writeFile\<close>, with path and data\<close>

text \<open>
  What a tool reads from outside itself: the outcome of every shell command, the answer
  of the confirmation service to every request, the session flags at the time of the call.
  A tool returns its result together with the calls it made, in order.
\<close>

record World =
  execAsync :: "string \<Rightarrow> ExecOutcome"
  requestConfirmation :: "ConfirmationOptions \<Rightarrow> string \<Rightarrow> ConfirmationResult"
  getSessionFlags :: SessionFlags

definition commandOutput :: "string \<Rightarrow> string \<Rightarrow> string" where
  \<comment> \<open>\<^verbatim>\<open>stdout + (stderr ? `\nSTDERR: ${stderr}` : '')\<close>\<close>
  "commandOutput stdout stderr = stdout @ (if stderr \<noteq> [] then newline @ ''STDERR: '' @ stderr else [])"

definition nonEmptyOr :: "string \<Rightarrow> string \<Rightarrow> string" where
  \<comment> \<open>\<^verbatim>\<open>s || d\<close> for a string \<^verbatim>\<open>s\<close>\<close>
  "nonEmptyOr s d = (if s = [] then d else s)"

section \<open>SystemctlTool (src/tools/systemctl.ts)\<close>

definition SystemctlTool_runCommand :: "World \<Rightarrow> string \<Rightarrow> bool \<Rightarrow> ToolResult \<times> Effect list" where
  "SystemctlTool_runCommand w command requiresConfirmation =
    (let sessionFlags = getSessionFlags w;
         ask = requiresConfirmation \<and> \<not> bashCommands sessionFlags \<and> \<not> allOperations sessionFlags;
         opts = \<lparr>operation = ''Run systemctl command'', filename = command,
                 showVSCodeOpen = False, content = Some (''Command: sudo '' @ command)\<rparr>;
         confirmationResult = requestConfirmation w opts ''bash'';
         asked = (if ask then [Confirm opts ''bash''] else [])
     in if ask \<and> \<not> confirmed confirmationResult then
          (failed (orElse (feedback confirmationResult) ''Systemctl command cancelled by user''), asked)
        else
          (case execAsync w (''sudo '' @ command) of
             Completed stdout stderr \<Rightarrow>
               (succeeded (nonEmptyOr (trim (commandOutput stdout stderr))
                             ''Command executed successfully (no output)''),
                asked @ [Exec (''sudo '' @ command)])
           | Rejected message \<Rightarrow>
               (failed (''Systemctl command failed: '' @ message),
                asked @ [Exec (''sudo '' @ command)])))"

definition SystemctlTool_start :: "World \<Rightarrow> string \<Rightarrow> ToolResult \<times> Effect list" where
  "SystemctlTool_start w serviceName = SystemctlTool_runCommand w (''systemctl start '' @ serviceName) True"

definition SystemctlTool_stop :: "World \<Rightarrow> string \<Rightarrow> ToolResult \<times> Effect list" where
  "SystemctlTool_stop w serviceName = SystemctlTool_runCommand w (''systemctl stop '' @ serviceName) True"

definition SystemctlTool_restart :: "World \<Rightarrow> string \<Rightarrow> ToolResult \<times> Effect list" where
  "SystemctlTool_restart w serviceName = SystemctlTool_runCommand w (''systemctl restart '' @ serviceName) True"

definition SystemctlTool_status :: "World \<Rightarrow> string \<Rightarrow> ToolResult \<times> Effect list" where
  "SystemctlTool_status w serviceName = SystemctlTool_runCommand w (''systemctl status '' @ serviceName) False"

definition SystemctlTool_enable :: "World \<Rightarrow> string \<Rightarrow> ToolResult \<times> Effect list" where
  "SystemctlTool_enable w serviceName = SystemctlTool_runCommand w (''systemctl enable '' @ serviceName) True"

definition SystemctlTool_disable :: "World \<Rightarrow> string \<Rightarrow> ToolResult \<times> Effect list" where
  "SystemctlTool_disable w serviceName = SystemctlTool_runCommand w (''systemctl disable '' @ serviceName) True"

definition describeService :: "string \<Rightarrow> ToolResult \<times> Effect list \<Rightarrow> ToolResult \<times> Effect list" where
  \<comment> \<open>\<^verbatim>\<open>if (result.success) result.output = `Service ${serviceName} is ${result.output}`\<close>\<close>
  "describeService serviceName r =
    (let result = fst r in
     if success result
     then (result\<lparr>outputText := Some (''Service '' @ serviceName @ '' is '' @ interp (outputText result))\<rparr>, snd r)
     else r)"

definition SystemctlTool_isActive :: "World \<Rightarrow> string \<Rightarrow> ToolResult \<times> Effect list" where
  "SystemctlTool_isActive w serviceName =
    describeService serviceName (SystemctlTool_runCommand w (''systemctl is-active '' @ serviceName) False)"

definition SystemctlTool_isEnabled :: "World \<Rightarrow> string \<Rightarrow> ToolResult \<times> Effect list" where
  "SystemctlTool_isEnabled w serviceName =
    describeService serviceName (SystemctlTool_runCommand w (''systemctl is-enabled '' @ serviceName) False)"

definition SystemctlTool_execute :: "World \<Rightarrow> string \<Rightarrow> string option \<Rightarrow> ToolResult \<times> Effect list" where
  "SystemctlTool_execute w op serviceName =
    (if \<not> truthy serviceName then (failed ''Service name is required'', [])
     else let name = the serviceName in
       if op = ''start'' then SystemctlTool_start w name
       else if op = ''stop'' then SystemctlTool_stop w name
       else if op = ''restart'' then SystemctlTool_restart w name
       else if op = ''status'' then SystemctlTool_status w name
       else if op = ''enable'' then SystemctlTool_enable w name
       else if op = ''disable'' then SystemctlTool_disable w name
       else if op = ''is-active'' then SystemctlTool_isActive w name
       else if op = ''is-enabled'' then SystemctlTool_isEnabled w name
       else (failed (''Unknown systemctl operation: '' @ op @
               ''. Supported: start, stop, restart, status, enable, disable, is-active, is-enabled''), []))"


section \<open>NetworkTool (src/tools/network.ts)\<close>

definition NetworkTool_runCommand :: "World \<Rightarrow> string \<Rightarrow> ToolResult \<times> Effect list" where
  "NetworkTool_runCommand w command =
    (case execAsync w command of
       Completed stdout stderr \<Rightarrow>
         (succeeded (nonEmptyOr (trim (commandOutput stdout stderr))
                       ''Command executed successfully (no output)''),
          [Exec command])
     | Rejected message \<Rightarrow>
         (failed (''Network command failed: '' @ message), [Exec command]))"

definition NetworkTool_ping :: "World \<Rightarrow> string option \<Rightarrow> string option \<Rightarrow> ToolResult \<times> Effect list" where
  "NetworkTool_ping w host count =
    (if \<not> truthy host then (failed ''Host is required for ping'', [])
     else NetworkTool_runCommand w (''ping -c '' @ orDefault count ''4'' @ '' '' @ interp host))"

definition NetworkTool_traceroute :: "World \<Rightarrow> string option \<Rightarrow> ToolResult \<times> Effect list" where
  "NetworkTool_traceroute w host =
    (if \<not> truthy host then (failed ''Host is required for traceroute'', [])
     else NetworkTool_runCommand w (''traceroute '' @ interp host))"

definition NetworkTool_interfaces :: "World \<Rightarrow> ToolResult \<times> Effect list" where
  "NetworkTool_interfaces w = NetworkTool_runCommand w ''ip addr show''"

definition NetworkTool_connections :: "World \<Rightarrow> ToolResult \<times> Effect list" where
  "NetworkTool_connections w = NetworkTool_runCommand w ''ss -tuln''"

definition NetworkTool_dnsLookup :: "World \<Rightarrow> string option \<Rightarrow> ToolResult \<times> Effect list" where
  "NetworkTool_dnsLookup w host =
    (if \<not> truthy host then (failed ''Host is required for DNS lookup'', [])
     else NetworkTool_runCommand w (''nslookup '' @ interp host))"

definition NetworkTool_speedTest :: "World \<Rightarrow> ToolResult \<times> Effect list" where
  \<comment> \<open>the probe \<^verbatim>\<open>which speedtest-cli\<close> decides between the measurement and the advice\<close>
  "NetworkTool_speedTest w =
    (case execAsync w ''which speedtest-cli'' of
       Completed stdout stderr \<Rightarrow>
         (let r = NetworkTool_runCommand w ''speedtest-cli --simple''
          in (fst r, Exec ''which speedtest-cli'' # snd r))
     | Rejected message \<Rightarrow>
         (succeeded (''speedtest-cli not installed. Install with: sudo apt install speedtest-cli''
                     @ newline @ newline
                     @ ''Alternative: Visit https://www.speedtest.net/ for manual testing''),
          [Exec ''which speedtest-cli'']))"

definition NetworkTool_execute :: "World \<Rightarrow> string \<Rightarrow> string list \<Rightarrow> ToolResult \<times> Effect list" where
  "NetworkTool_execute w op args =
    (if op = ''ping'' then NetworkTool_ping w (arg args 0) (arg args 1)
     else if op = ''traceroute'' then NetworkTool_traceroute w (arg args 0)
     else if op = ''interfaces'' then NetworkTool_interfaces w
     else if op = ''connections'' then NetworkTool_connections w
     else if op = ''dns'' then NetworkTool_dnsLookup w (arg args 0)
     else if op = ''speedtest'' then NetworkTool_speedTest w
     else (failed (''Unknown network operation: '' @ op @
             ''. Supported: ping, traceroute, interfaces, connections, dns, speedtest''), []))"

section \<open>DiskTool (src/tools/disk.ts)\<close>

definition DiskTool_runCommand :: "World \<Rightarrow> string \<Rightarrow> ToolResult \<times> Effect list" where
  "DiskTool_runCommand w command =
    (case execAsync w command of
       Completed stdout stderr \<Rightarrow>
         (succeeded (nonEmptyOr (trim (commandOutput stdout stderr))
                       ''Command executed successfully (no output)''),
          [Exec command])
     | Rejected message \<Rightarrow>
         (failed (''Disk command failed: '' @ message), [Exec command]))"

definition DiskTool_usage :: "World \<Rightarrow> string option \<Rightarrow> ToolResult \<times> Effect list" where
  "DiskTool_usage w path = DiskTool_runCommand w (''df -h '' @ orDefault path ''/'')"

definition DiskTool_free :: "World \<Rightarrow> ToolResult \<times> Effect list" where
  "DiskTool_free w = DiskTool_runCommand w ''free -h''"

definition DiskTool_diskUsage :: "World \<Rightarrow> string option \<Rightarrow> ToolResult \<times> Effect list" where
  "DiskTool_diskUsage w path = DiskTool_runCommand w (''du -sh '' @ orDefault path ''.'')"

definition DiskTool_findLargeFiles :: "World \<Rightarrow> string option \<Rightarrow> string option \<Rightarrow> ToolResult \<times> Effect list" where
  "DiskTool_findLargeFiles w directory minSize =
    DiskTool_runCommand w (''find '' @ orDefault directory ''/'' @ '' -type f -size +''
      @ orDefault minSize ''100M'' @ '' -exec ls -lh {} '' @ backslash @ ''; | sort -k5 -hr | head -20'')"

fun joinWith :: "string \<Rightarrow> string list \<Rightarrow> string" where
  "joinWith sep [] = []"
| "joinWith sep [x] = x"
| "joinWith sep (x # y # ys) = x @ sep @ joinWith sep (y # ys)"

definition dquote :: string where
  "dquote = [CHR 0x22]"

definition suggestions :: "string list" where
  "suggestions =
    [''Consider cleaning package cache: sudo apt autoclean && sudo apt autoremove'',
     ''Check for large log files: sudo find /var/log -type f -size +50M -exec ls -lh {} '' @ backslash @ '';'',
     ''Look for old kernels: dpkg --list | grep linux-image'',
     ''Check Docker if installed: docker system df'',
     ''Find duplicate packages: sudo apt list --installed | grep -o '' @ dquote @ ''^[^/]*'' @ dquote @ '' | sort | uniq -d'']"

definition DiskTool_cleanupSuggestions :: "ToolResult \<times> Effect list" where
  "DiskTool_cleanupSuggestions = (succeeded (''Disk cleanup suggestions:'' @ newline @ joinWith newline suggestions), [])"

definition DiskTool_execute :: "World \<Rightarrow> string \<Rightarrow> string list \<Rightarrow> ToolResult \<times> Effect list" where
  "DiskTool_execute w op args =
    (if op = ''usage'' then DiskTool_usage w (arg args 0)
     else if op = ''free'' then DiskTool_free w
     else if op = ''du'' then DiskTool_diskUsage w (Some (orElse (arg args 0) ''.''))
     else if op = ''large-files'' then
       DiskTool_findLargeFiles w (Some (orElse (arg args 0) ''.'')) (Some (orElse (arg args 1) ''100M''))
     else if op = ''cleanup'' then DiskTool_cleanupSuggestions
     else (failed (''Unknown disk operation: '' @ op @
             ''. Supported: usage, free, du, large-files, cleanup''), []))"

section \<open>AptTool (the third part of src/tools/code-execution.ts)\<close>

definition AptTool_runCommand :: "World \<Rightarrow> string \<Rightarrow> bool \<Rightarrow> ToolResult \<times> Effect list" where
  "AptTool_runCommand w command requiresConfirmation =
    (let sessionFlags = getSessionFlags w;
         ask = requiresConfirmation \<and> \<not> bashCommands sessionFlags \<and> \<not> allOperations sessionFlags;
         opts = \<lparr>operation = ''Run apt command'', filename = command,
                 showVSCodeOpen = False, content = Some (''Command: sudo '' @ command)\<rparr>;
         confirmationResult = requestConfirmation w opts ''bash'';
         asked = (if ask then [Confirm opts ''bash''] else [])
     in if ask \<and> \<not> confirmed confirmationResult then
          (failed (orElse (feedback confirmationResult) ''Apt command cancelled by user''), asked)
        else
          (case execAsync w (''sudo '' @ command) of
             Completed stdout stderr \<Rightarrow>
               (succeeded (nonEmptyOr (trim (commandOutput stdout stderr))
                             ''Command executed successfully (no output)''),
                asked @ [Exec (''sudo '' @ command)])
           | Rejected message \<Rightarrow>
               (failed (''Apt command failed: '' @ message),
                asked @ [Exec (''sudo '' @ command)])))"

definition AptTool_install :: "World \<Rightarrow> string option \<Rightarrow> ToolResult \<times> Effect list" where
  "AptTool_install w packageName =
    (if \<not> truthy packageName then (failed ''Package name is required'', [])
     else AptTool_runCommand w (''apt install -y '' @ interp packageName) True)"

definition AptTool_remove :: "World \<Rightarrow> string option \<Rightarrow> ToolResult \<times> Effect list" where
  "AptTool_remove w packageName =
    (if \<not> truthy packageName then (failed ''Package name is required'', [])
     else AptTool_runCommand w (''apt remove -y '' @ interp packageName) True)"

definition AptTool_update :: "World \<Rightarrow> ToolResult \<times> Effect list" where
  "AptTool_update w = AptTool_runCommand w ''apt update'' True"

definition AptTool_upgrade :: "World \<Rightarrow> ToolResult \<times> Effect list" where
  "AptTool_upgrade w = AptTool_runCommand w ''apt upgrade -y'' True"

definition AptTool_search :: "World \<Rightarrow> string option \<Rightarrow> ToolResult \<times> Effect list" where
  "AptTool_search w packageName =
    (if \<not> truthy packageName then (failed ''Package name is required'', [])
     else AptTool_runCommand w (''apt search '' @ interp packageName) False)"

definition AptTool_show :: "World \<Rightarrow> string option \<Rightarrow> ToolResult \<times> Effect list" where
  "AptTool_show w packageName =
    (if \<not> truthy packageName then (failed ''Package name is required'', [])
     else AptTool_runCommand w (''apt show '' @ interp packageName) False)"

definition AptTool_execute :: "World \<Rightarrow> string \<Rightarrow> string list \<Rightarrow> ToolResult \<times> Effect list" where
  "AptTool_execute w op args =
    (if op = ''install'' then AptTool_install w (arg args 0)
     else if op = ''remove'' then AptTool_remove w (arg args 0)
     else if op = ''update'' then AptTool_update w
     else if op = ''upgrade'' then AptTool_upgrade w
     else if op = ''search'' then AptTool_search w (arg args 0)
     else if op = ''show'' then AptTool_show w (arg args 0)
     else (failed (''Unknown apt operation: '' @ op @
             ''. Supported: install, remove, update, upgrade, search, show''), []))"


section \<open>CodeExecutionTool (src/tools/code-execution.ts)\<close>

definition objectPrototypeKeys :: "string list" where
  "objectPrototypeKeys =
    [''constructor'', ''__defineGetter__'', ''__defineSetter__'', ''hasOwnProperty'',
     ''__lookupGetter__'', ''__lookupSetter__'', ''isPrototypeOf'', ''propertyIsEnumerable'',
     ''toString'', ''valueOf'', ''__proto__'', ''toLocaleString'']"

record LanguageConfig =
  config_filename :: string
  dockerImage :: string
  runCommand :: string

text \<open>
  The part of the environment that only code execution reads: the file system calls, the
  temporary directory, the time-and-random suffix of the container name, and the texts the
  run time gives for an inherited member's \<^verbatim>\<open>length\<close> and for the type error of
  \<^verbatim>\<open>join\<close> on an undefined file name.
\<close>

record Sandbox =
  tmpdir :: string
  mkdtemp :: "string \<Rightarrow> string + string"            \<comment> \<open>\<^term>\<open>Inl\<close> the error message\<close>
  writeFile :: "string \<Rightarrow> CodeValue \<Rightarrow> string option"  \<comment> \<open>\<^term>\<open>Some\<close> the error message\<close>
  containerSuffix :: string
  memberLength :: "string \<Rightarrow> string"
  joinTypeError :: string

fun decimal :: "nat \<Rightarrow> string" where
  "decimal n = (if n < 10 then [char_of (48 + n)] else decimal (n div 10) @ [char_of (48 + n mod 10)])"

definition toLowerCase :: "string \<Rightarrow> string" where
  "toLowerCase s =
    map (\<lambda>c. let n = (of_char c :: nat)
             in if (65 \<le> n \<and> n \<le> 90) \<or> (192 \<le> n \<and> n \<le> 222 \<and> n \<noteq> 215)
                then char_of (n + 32) else c) s"

definition join :: "string \<Rightarrow> string \<Rightarrow> string" where
  \<comment> \<open>\<^verbatim>\<open>path.join\<close> of a directory without trailing separator and a plain file name\<close>
  "join dir name = dir @ ''/'' @ name"

definition configs :: "(string \<times> LanguageConfig) list" where
  "configs =
    [(''javascript'', \<lparr>config_filename = ''code.js'', dockerImage = ''node:18-alpine'', runCommand = ''node code.js''\<rparr>),
     (''typescript'', \<lparr>config_filename = ''code.ts'', dockerImage = ''node:18-alpine'', runCommand = ''npx ts-node code.ts''\<rparr>),
     (''python'', \<lparr>config_filename = ''code.py'', dockerImage = ''python:3.11-alpine'', runCommand = ''python code.py''\<rparr>),
     (''python3'', \<lparr>config_filename = ''code.py'', dockerImage = ''python:3.11-alpine'', runCommand = ''python code.py''\<rparr>),
     (''java'', \<lparr>config_filename = ''Main.java'', dockerImage = ''openjdk:17-alpine'', runCommand = ''javac Main.java && java Main''\<rparr>),
     (''cpp'', \<lparr>config_filename = ''main.cpp'', dockerImage = ''gcc:11-alpine'', runCommand = ''g++ -o main main.cpp && ./main''\<rparr>),
     (''c'', \<lparr>config_filename = ''main.c'', dockerImage = ''gcc:11-alpine'', runCommand = ''gcc -o main main.c && ./main''\<rparr>),
     (''go'', \<lparr>config_filename = ''main.go'', dockerImage = ''golang:1.21-alpine'', runCommand = ''go run main.go''\<rparr>),
     (''rust'', \<lparr>config_filename = ''main.rs'', dockerImage = ''rust:1.72-alpine'', runCommand = ''rustc main.rs && ./main''\<rparr>),
     (''bash'', \<lparr>config_filename = ''script.sh'', dockerImage = ''alpine:latest'', runCommand = ''chmod +x script.sh && ./script.sh''\<rparr>),
     (''shell'', \<lparr>config_filename = ''script.sh'', dockerImage = ''alpine:latest'', runCommand = ''chmod +x script.sh && ./script.sh''\<rparr>),
     (''sh'', \<lparr>config_filename = ''script.sh'', dockerImage = ''alpine:latest'', runCommand = ''chmod +x script.sh && ./script.sh''\<rparr>)]"

definition getLanguageConfig :: "string \<Rightarrow> LanguageConfig option" where
  \<comment> \<open>\<^term>\<open>None\<close>: the read found an inherited member, whose three fields are undefined\<close>
  "getLanguageConfig lang =
    (case map_of configs (toLowerCase lang) of
       Some c \<Rightarrow> Some c
     | None \<Rightarrow>
         if toLowerCase lang \<in> set objectPrototypeKeys then None
         else Some \<lparr>config_filename = ''code.txt'', dockerImage = ''alpine:latest'',
                    runCommand = ''echo '' @ dquote @ ''Unsupported language'' @ dquote\<rparr>)"

definition buildDockerCommand :: "string \<Rightarrow> string \<Rightarrow> string \<Rightarrow> string \<Rightarrow> string option \<Rightarrow> string" where
  "buildDockerCommand imageName name tempDir command inputPath =
    (let volumeMount = ''-v '' @ tempDir @ '':/app:ro'';
         inputMount = (case inputPath of Some p \<Rightarrow> ''-v '' @ p @ '':/app/input.txt:ro'' | None \<Rightarrow> []);
         dockerRun = ''docker run --rm --name '' @ name @ '' '' @ volumeMount @ '' '' @ inputMount
           @ '' -w /app --memory=128m --cpus=0.5 --network=none --read-only --tmpfs /tmp '' @ imageName
     in case inputPath of
          Some p \<Rightarrow> dockerRun @ '' sh -c '' @ dquote @ command @ '' < input.txt'' @ dquote
        | None \<Rightarrow> dockerRun @ '' sh -c '' @ dquote @ command @ dquote)"

definition executionFailed :: "string \<Rightarrow> string \<Rightarrow> string option \<Rightarrow> ToolResult" where
  \<comment> \<open>the \<^verbatim>\<open>catch\<close> block of \<^verbatim>\<open>runCode\<close>\<close>
  "executionFailed message lang name =
    \<lparr>success = False, outputText = None, error = Some (''Code execution failed: '' @ message),
     data = Some \<lparr>data_language = lang, data_containerName = name, data_executionTime = ''failed''\<rparr>\<rparr>"

definition cleanup :: "string \<Rightarrow> string \<Rightarrow> Effect list" where
  \<comment> \<open>the \<^verbatim>\<open>finally\<close> block, once both names are set\<close>
  "cleanup name tempDir = [Exec (''docker rm -f '' @ name), Exec (''rm -rf '' @ tempDir)]"

definition runDocker ::
  "World \<Rightarrow> LanguageConfig \<Rightarrow> string \<Rightarrow> string \<Rightarrow> string \<Rightarrow> string option \<Rightarrow> ToolResult \<times> Effect list" where
  \<comment> \<open>from \<^verbatim>\<open>buildDockerCommand\<close> to the \<^verbatim>\<open>return\<close> of the \<^verbatim>\<open>try\<close> block\<close>
  "runDocker w cfg lang name tempDir inputPath =
    (let dockerCommand = buildDockerCommand (dockerImage cfg) name tempDir (runCommand cfg) inputPath
     in case execAsync w dockerCommand of
          Completed stdout stderr \<Rightarrow>
            (\<lparr>success = True,
              outputText = Some (nonEmptyOr (trim (commandOutput stdout stderr))
                                   ''Code executed successfully (no output)''),
              error = None,
              data = Some \<lparr>data_language = lang, data_containerName = Some name,
                           data_executionTime = ''completed''\<rparr>\<rparr>,
             [Exec dockerCommand])
        | Rejected message \<Rightarrow> (executionFailed message lang (Some name), [Exec dockerCommand]))"

definition writeInput ::
  "World \<Rightarrow> Sandbox \<Rightarrow> LanguageConfig \<Rightarrow> string \<Rightarrow> string \<Rightarrow> string \<Rightarrow> string option \<Rightarrow> ToolResult \<times> Effect list" where
  \<comment> \<open>\<^verbatim>\<open>if (input) { ... writeFile(inputPath, input) }\<close>, then the container\<close>
  "writeInput w sb cfg lang name tempDir input =
    (if truthy input then
       (let inputPath = join tempDir ''input.txt'' in
        case writeFile sb inputPath (Text (interp input)) of
          Some message \<Rightarrow> (executionFailed message lang (Some name), [WriteFile inputPath (Text (interp input))])
        | None \<Rightarrow>
            (let r = runDocker w cfg lang name tempDir (Some inputPath)
             in (fst r, WriteFile inputPath (Text (interp input)) # snd r)))
     else runDocker w cfg lang name tempDir None)"

definition writeCode ::
  "World \<Rightarrow> Sandbox \<Rightarrow> CodeValue \<Rightarrow> string \<Rightarrow> string \<Rightarrow> string \<Rightarrow> string option \<Rightarrow> ToolResult \<times> Effect list" where
  \<comment> \<open>\<^verbatim>\<open>getLanguageConfig\<close>, \<^verbatim>\<open>join\<close> and the first \<^verbatim>\<open>writeFile\<close>\<close>
  "writeCode w sb code lang name tempDir input =
    (case getLanguageConfig lang of
       None \<Rightarrow> (executionFailed (joinTypeError sb) lang (Some name), [])
     | Some cfg \<Rightarrow>
         (let codePath = join tempDir (config_filename cfg) in
          case writeFile sb codePath code of
            Some message \<Rightarrow> (executionFailed message lang (Some name), [WriteFile codePath code])
          | None \<Rightarrow>
              (let r = writeInput w sb cfg lang name tempDir input
               in (fst r, WriteFile codePath code # snd r))))"

definition runInContainer ::
  "World \<Rightarrow> Sandbox \<Rightarrow> CodeValue \<Rightarrow> string \<Rightarrow> string option \<Rightarrow> ToolResult \<times> Effect list" where
  \<comment> \<open>the \<^verbatim>\<open>try\<close>, \<^verbatim>\<open>catch\<close> and \<^verbatim>\<open>finally\<close> of \<^verbatim>\<open>runCode\<close>\<close>
  "runInContainer w sb code lang input =
    (let tempPrefix = join (tmpdir sb) ''grok-code-exec-'' in
     case mkdtemp sb tempPrefix of
       Inl message \<Rightarrow> (executionFailed message lang None, [Mkdtemp tempPrefix])
     | Inr tempDir \<Rightarrow>
         (let name = ''grok-exec-'' @ containerSuffix sb;
              r = writeCode w sb code lang name tempDir input
          in (fst r, Mkdtemp tempPrefix # snd r @ cleanup name tempDir)))"

definition codeLength :: "Sandbox \<Rightarrow> CodeValue \<Rightarrow> string" where
  \<comment> \<open>\<^verbatim>\<open>${code.length}\<close>\<close>
  "codeLength sb code = (case code of Text s \<Rightarrow> decimal (length s) | Member k \<Rightarrow> memberLength sb k)"

definition CodeExecutionTool_runCode ::
  "World \<Rightarrow> Sandbox \<Rightarrow> CodeValue option \<Rightarrow> string option \<Rightarrow> string option \<Rightarrow> ToolResult \<times> Effect list" where
  "CodeExecutionTool_runCode w sb code lang input =
    (if code = None \<or> code = Some (Text []) then (failed ''Code is required'', [])
     else if \<not> truthy lang then (failed ''Language is required'', [])
     else case execAsync w ''docker --version'' of
       Rejected message \<Rightarrow>
         (failed ''Docker is required for safe code execution but is not available. Please install Docker.'',
          [Exec ''docker --version''])
     | Completed stdout stderr \<Rightarrow>
         let sessionFlags = getSessionFlags w;
             ask = \<not> bashCommands sessionFlags \<and> \<not> allOperations sessionFlags;
             opts = \<lparr>operation = ''Execute code in Docker container'',
                     filename = ''code.'' @ the lang,
                     showVSCodeOpen = False,
                     content = Some (''Language: '' @ the lang @ newline
                                     @ ''Code length: '' @ codeLength sb (the code) @ '' characters'' @ newline
                                     @ ''Input: '' @ orElse input ''none'')\<rparr>;
             confirmationResult = requestConfirmation w opts ''bash'';
             asked = Exec ''docker --version'' # (if ask then [Confirm opts ''bash''] else [])
         in if ask \<and> \<not> confirmed confirmationResult then
              (failed (orElse (feedback confirmationResult) ''Code execution cancelled by user''), asked)
            else
              (let r = runInContainer w sb (the code) (the lang) input in (fst r, asked @ snd r)))"

definition testInputs :: "(string \<times> string) list" where
  "testInputs =
    [(''javascript'', ''console.log('' @ dquote @ ''Hello from test!'' @ dquote @ '');''),
     (''python'', ''print('' @ dquote @ ''Hello from test!'' @ dquote @ '')''),
     (''bash'', ''echo '' @ dquote @ ''Hello from test!'' @ dquote),
     (''java'', ''public class Test { public static void main(String[] args) { System.out.println(''
                @ dquote @ ''Hello from test!'' @ dquote @ ''); } }'')]"

definition testInput :: "string option \<Rightarrow> string option \<Rightarrow> CodeValue option" where
  \<comment> \<open>\<^verbatim>\<open>testInputs[language] || code\<close>\<close>
  "testInput code lang =
    (case map_of testInputs (interp lang) of
       Some t \<Rightarrow> Some (Text t)
     | None \<Rightarrow> if interp lang \<in> set objectPrototypeKeys then Some (Member (interp lang))
               else map_option Text code)"

definition CodeExecutionTool_testCode ::
  "World \<Rightarrow> Sandbox \<Rightarrow> string option \<Rightarrow> string option \<Rightarrow> ToolResult \<times> Effect list" where
  "CodeExecutionTool_testCode w sb code lang = CodeExecutionTool_runCode w sb (testInput code lang) lang None"

definition CodeExecutionTool_execute ::
  "World \<Rightarrow> Sandbox \<Rightarrow> string \<Rightarrow> string list \<Rightarrow> ToolResult \<times> Effect list" where
  "CodeExecutionTool_execute w sb op args =
    (if op = ''run'' then
       CodeExecutionTool_runCode w sb (map_option Text (arg args 0)) (arg args 1) (arg args 2)
     else if op = ''test'' then CodeExecutionTool_testCode w sb (arg args 0) (arg args 1)
     else (failed (''Unknown code execution operation: '' @ op @ ''. Supported: run, test''), []))"


section \<open>Conversation history (ChatProvider and processUserMessage of src/tui/app.tsx)\<close>

record GrokToolCall =
  call_id :: string
  call_name :: string       \<comment> \<open>\<^verbatim>\<open>function.name\<close>\<close>
  call_arguments :: string  \<comment> \<open>\<^verbatim>\<open>function.arguments\<close>\<close>

datatype ChatEntryType = Type_user | Type_assistant | Type_tool_result | Type_tool_call

record ChatEntry =
  entry_type :: ChatEntryType
  entry_content :: string
  entry_timestamp :: nat
  entry_isStreaming :: "bool option"
  entry_toolCalls :: "GrokToolCall list option"
  entry_toolCall :: "GrokToolCall option"
  entry_toolResult :: "ToolResult option"

datatype ChunkType = Chunk_content | Chunk_token_count | Chunk_tool_calls | Chunk_tool_result | Chunk_done

record StreamingChunk =
  chunk_type :: ChunkType
  chunk_content :: "string option"
  chunk_tokenCount :: "int option"
  chunk_toolCalls :: "GrokToolCall list option"
  chunk_toolCall :: "GrokToolCall option"
  chunk_toolResult :: "ToolResult option"

record ChatState =
  history :: "ChatEntry list"
  isProcessing :: bool
  isStreaming :: bool
  tokenCount :: int
  processingTime :: int

definition setHistory :: "(ChatEntry list \<Rightarrow> ChatEntry list) \<Rightarrow> ChatState \<Rightarrow> ChatState" where
  "setHistory f chat = chat\<lparr>history := f (history chat)\<rparr>"

definition addEntry :: "ChatEntry \<Rightarrow> ChatState \<Rightarrow> ChatState" where
  "addEntry entry chat = setHistory (\<lambda>prev. prev @ [entry]) chat"

definition updateLastEntry :: "(ChatEntry \<Rightarrow> ChatEntry) \<Rightarrow> ChatState \<Rightarrow> ChatState" where
  "updateLastEntry updater chat =
    setHistory (\<lambda>prev. if length prev = 0 then prev
                       else prev[length prev - 1 := updater (prev ! (length prev - 1))]) chat"

definition clearHistory :: "ChatState \<Rightarrow> ChatState" where
  "clearHistory chat = \<lparr>history = [], isProcessing = False, isStreaming = False, tokenCount = 0, processingTime = 0\<rparr>"

definition streaming :: "ChatEntry \<Rightarrow> bool" where
  \<comment> \<open>the test \<^verbatim>\<open>entry.isStreaming\<close>\<close>
  "streaming entry = (entry_isStreaming entry = Some True)"

definition plainEntry :: "ChatEntryType \<Rightarrow> string \<Rightarrow> nat \<Rightarrow> ChatEntry" where
  \<comment> \<open>\<^verbatim>\<open>{ type, content, timestamp }\<close>\<close>
  "plainEntry t c now =
    \<lparr>entry_type = t, entry_content = c, entry_timestamp = now, entry_isStreaming = None,
     entry_toolCalls = None, entry_toolCall = None, entry_toolResult = None\<rparr>"

definition resultContent :: "ToolResult \<Rightarrow> string" where
  \<comment> \<open>\<^verbatim>\<open>r.success ? r.output || "Success" : r.error || "Error occurred"\<close>\<close>
  "resultContent r = (if success r then orElse (outputText r) ''Success'' else orElse (error r) ''Error occurred'')"

text \<open>
  One turn of the \<^verbatim>\<open>for await\<close> loop of \<^verbatim>\<open>processUserMessage\<close>: the chat state and the
  local variable \<^verbatim>\<open>streamingEntry\<close> before and after one chunk. \<^term>\<open>now\<close> is the clock
  when the chunk is handled.
\<close>

definition onContent :: "nat \<Rightarrow> StreamingChunk \<Rightarrow> ChatState \<times> ChatEntry option \<Rightarrow> ChatState \<times> ChatEntry option" where
  "onContent now chunk s =
    (if truthy (chunk_content chunk) then
       (case snd s of
          None \<Rightarrow>
            (let newStreamingEntry = (plainEntry Type_assistant (the (chunk_content chunk)) now)
                                       \<lparr>entry_isStreaming := Some True\<rparr>
             in (addEntry newStreamingEntry (fst s), Some newStreamingEntry))
        | Some streamingEntry \<Rightarrow>
            (updateLastEntry
               (\<lambda>entry. if streaming entry
                         then entry\<lparr>entry_content := entry_content entry @ the (chunk_content chunk)\<rparr>
                         else entry)
               (fst s),
             snd s))
     else s)"

definition onTokenCount :: "StreamingChunk \<Rightarrow> ChatState \<times> ChatEntry option \<Rightarrow> ChatState \<times> ChatEntry option" where
  "onTokenCount chunk s =
    (case chunk_tokenCount chunk of
       Some n \<Rightarrow> ((fst s)\<lparr>tokenCount := n\<rparr>, snd s)
     | None \<Rightarrow> s)"

definition onToolCalls :: "nat \<Rightarrow> StreamingChunk \<Rightarrow> ChatState \<times> ChatEntry option \<Rightarrow> ChatState \<times> ChatEntry option" where
  "onToolCalls now chunk s =
    (case chunk_toolCalls chunk of
       Some calls \<Rightarrow>
         (let closed = setHistory
                (map (\<lambda>entry. if streaming entry
                               then entry\<lparr>entry_isStreaming := Some False, entry_toolCalls := Some calls\<rparr>
                               else entry))
                (fst s)
          in (foldl (\<lambda>chat toolCall.
                       addEntry ((plainEntry Type_tool_call ''Executing...'' now)\<lparr>entry_toolCall := Some toolCall\<rparr>) chat)
                closed calls,
              None))
     | None \<Rightarrow> s)"

definition sameCall :: "ChatEntry \<Rightarrow> GrokToolCall \<Rightarrow> bool" where
  \<comment> \<open>\<^verbatim>\<open>entry.type === "tool_call" && entry.toolCall?.id === chunk.toolCall?.id\<close>\<close>
  "sameCall entry toolCall =
    (entry_type entry = Type_tool_call \<and>
     (case entry_toolCall entry of Some c \<Rightarrow> call_id c = call_id toolCall | None \<Rightarrow> False))"

definition onToolResult :: "StreamingChunk \<Rightarrow> ChatState \<times> ChatEntry option \<Rightarrow> ChatState \<times> ChatEntry option" where
  "onToolResult chunk s =
    (case (chunk_toolCall chunk, chunk_toolResult chunk) of
       (Some toolCall, Some r) \<Rightarrow>
         (setHistory
            (map (\<lambda>entry. if streaming entry then entry\<lparr>entry_isStreaming := Some False\<rparr>
                           else if sameCall entry toolCall
                           then entry\<lparr>entry_type := Type_tool_result, entry_content := resultContent r,
                                      entry_toolResult := Some r\<rparr>
                           else entry))
            (fst s),
          None)
     | _ \<Rightarrow> s)"

definition onDone :: "ChatState \<times> ChatEntry option \<Rightarrow> ChatState \<times> ChatEntry option" where
  "onDone s =
    ((if snd s \<noteq> None
      then setHistory (map (\<lambda>entry. if streaming entry then entry\<lparr>entry_isStreaming := Some False\<rparr> else entry)) (fst s)
      else fst s)\<lparr>isStreaming := False\<rparr>,
     snd s)"

definition processChunk :: "ChatState \<times> ChatEntry option \<Rightarrow> nat \<times> StreamingChunk \<Rightarrow> ChatState \<times> ChatEntry option" where
  "processChunk s timed =
    (let now = fst timed; chunk = snd timed in
     case chunk_type chunk of
       Chunk_content \<Rightarrow> onContent now chunk s
     | Chunk_token_count \<Rightarrow> onTokenCount chunk s
     | Chunk_tool_calls \<Rightarrow> onToolCalls now chunk s
     | Chunk_tool_result \<Rightarrow> onToolResult chunk s
     | Chunk_done \<Rightarrow> onDone s)"

definition processChunks :: "ChatState \<times> ChatEntry option \<Rightarrow> (nat \<times> StreamingChunk) list \<Rightarrow> ChatState \<times> ChatEntry option" where
  "processChunks s chunks = foldl processChunk s chunks"

text \<open>
  The whole of \<^verbatim>\<open>processUserMessage\<close>. The agent's stream is the list of chunks it yields,
  each with the time it is handled, and the message of the error it throws after them, if any.
\<close>

definition processUserMessage ::
  "string \<Rightarrow> nat \<Rightarrow> (nat \<times> StreamingChunk) list \<Rightarrow> (nat \<times> string) option \<Rightarrow> ChatState \<Rightarrow> ChatState" where
  "processUserMessage userInput now chunks thrown chat =
    (let started = (addEntry (plainEntry Type_user userInput now) chat)\<lparr>isProcessing := True, isStreaming := True\<rparr>;
         streamed = fst (processChunks (started, None) chunks);
         finished = (case thrown of
                       None \<Rightarrow> streamed
                     | Some (failedAt, message) \<Rightarrow>
                         (addEntry (plainEntry Type_assistant (''Error: '' @ message) failedAt) streamed)
                           \<lparr>isStreaming := False\<rparr>)
     in finished\<lparr>isProcessing := False\<rparr>)"


section \<open>Session flags and the headless drivers (src/index.ts)\<close>

text \<open>
  Modelled from the spec: the session-flag operations of ConfirmationService, whose file is
  not under src/. The flags are a mapping from category to boolean, set by name, all cleared
  by a reset; a request of category \<^verbatim>\<open>bash\<close> or \<^verbatim>\<open>file\<close> is covered by its own flag
  or by the flag for all operations, and an approval that is to be remembered sets the
  category's flag.
\<close>

definition setSessionFlag :: "string \<Rightarrow> bool \<Rightarrow> SessionFlags \<Rightarrow> SessionFlags" where
  \<comment> \<open>Modelled from the spec: the setter of one session flag of ConfirmationService, by the flag's name\<close>
  "setSessionFlag flagType v flags =
    (if flagType = ''fileOperations'' then flags\<lparr>fileOperations := v\<rparr>
     else if flagType = ''bashCommands'' then flags\<lparr>bashCommands := v\<rparr>
     else if flagType = ''allOperations'' then flags\<lparr>allOperations := v\<rparr>
     else flags)"

definition resetSession :: SessionFlags where
  \<comment> \<open>Modelled from the spec: \<^verbatim>\<open>reset()\<close> of ConfirmationService clears all session flags\<close>
  "resetSession = \<lparr>fileOperations = False, bashCommands = False, allOperations = False\<rparr>"

definition covered :: "SessionFlags \<Rightarrow> string \<Rightarrow> bool" where
  \<comment> \<open>Modelled from the spec: a request is covered by the flag of its category or by the flag for all operations\<close>
  "covered flags category =
    (allOperations flags
     \<or> (category = ''file'' \<and> fileOperations flags)
     \<or> (category = ''bash'' \<and> bashCommands flags))"

definition remember :: "string \<Rightarrow> SessionFlags \<Rightarrow> SessionFlags" where
  \<comment> \<open>Modelled from the spec: a remembered approval sets the flag of the request's category\<close>
  "remember category flags =
    (if category = ''file'' then setSessionFlag ''fileOperations'' True flags
     else if category = ''bash'' then setSessionFlag ''bashCommands'' True flags
     else flags)"

fun flagsAfter :: "World \<Rightarrow> Effect list \<Rightarrow> SessionFlags \<Rightarrow> SessionFlags" where
  \<comment> \<open>Modelled from the spec: the session flags after the decisions of a trace (ConfirmationService)\<close>
  "flagsAfter w [] flags = flags"
| "flagsAfter w (Confirm opts category # trace) flags =
    flagsAfter w trace
      (let r = requestConfirmation w opts category
       in if confirmed r \<and> dontAskAgain r then remember category flags else flags)"
| "flagsAfter w (e # trace) flags = flagsAfter w trace flags"

datatype Invocation =
    Systemctl string "string option"
  | Apt string "string list"
  | Network string "string list"
  | Disk string "string list"
  | CodeExecution string "string list"

definition invoke :: "World \<Rightarrow> Sandbox \<Rightarrow> Invocation \<Rightarrow> ToolResult \<times> Effect list" where
  "invoke w sb call =
    (case call of
       Systemctl op serviceName \<Rightarrow> SystemctlTool_execute w op serviceName
     | Apt op args \<Rightarrow> AptTool_execute w op args
     | Network op args \<Rightarrow> NetworkTool_execute w op args
     | Disk op args \<Rightarrow> DiskTool_execute w op args
     | CodeExecution op args \<Rightarrow> CodeExecutionTool_execute w sb op args)"

text \<open>
  A run of the agent, seen from the tools: the invocations it makes, one after the other, each
  reading the session flags left by the decisions before it.
\<close>

fun runTools :: "World \<Rightarrow> Sandbox \<Rightarrow> Invocation list \<Rightarrow> ToolResult list \<times> Effect list \<times> SessionFlags" where
  "runTools w sb [] = ([], [], getSessionFlags w)"
| "runTools w sb (call # calls) =
    (let r = invoke w sb call;
         rest = runTools (w\<lparr>getSessionFlags := flagsAfter w (snd r) (getSessionFlags w)\<rparr>) sb calls
     in (fst r # fst rest, snd r @ fst (snd rest), snd (snd rest)))"

definition processPromptHeadless :: "World \<Rightarrow> Sandbox \<Rightarrow> Invocation list \<Rightarrow> ToolResult list \<times> Effect list \<times> SessionFlags" where
  \<comment> \<open>\<^verbatim>\<open>setSessionFlag("allOperations", true)\<close>, then the agent's run for the prompt\<close>
  "processPromptHeadless w sb calls =
    runTools (w\<lparr>getSessionFlags := setSessionFlag ''allOperations'' True (getSessionFlags w)\<rparr>) sb calls"

definition handleCommitAndPushHeadless :: "World \<Rightarrow> Sandbox \<Rightarrow> Invocation list \<Rightarrow> ToolResult list \<times> Effect list \<times> SessionFlags" where
  \<comment> \<open>\<^verbatim>\<open>setSessionFlag("allOperations", true)\<close>, then the agent's run for the commit message\<close>
  "handleCommitAndPushHeadless w sb calls =
    runTools (w\<lparr>getSessionFlags := setSessionFlag ''allOperations'' True (getSessionFlags w)\<rparr>) sb calls"

text \<open>
  The option \<^verbatim>\<open>max-tool-rounds\<close> has the type \<^verbatim>\<open>number\<close>: its value is a double. The
  finite doubles are the rationals \<open>m\<close> times a power of two with \<open>m\<close> below \<open>2^53\<close> in
  absolute value and the exponent from \<open>-1074\<close> to \<open>971\<close>; the two zeros are one value here,
  they behave alike wherever the value is used.
\<close>

definition isDouble :: "rat \<Rightarrow> bool" where
  "isDouble q =
    (\<exists>m k. \<bar>m\<bar> < (2::int) ^ 53
       \<and> (k \<le> (971::nat) \<and> q = of_int m * 2 ^ k \<or> k \<le> (1074::nat) \<and> q = of_int m / 2 ^ k))"

typedef double = "{q. isDouble q}"
  morphisms valueOf double
  by (rule exI[of _ 0], unfold mem_Collect_eq isDouble_def, rule exI[of _ 0], rule exI[of _ 0], simp)

datatype Number = NaN | PosInfinity | NegInfinity | Finite double

definition truthyNumber :: "Number \<Rightarrow> bool" where
  \<comment> \<open>every number but zero and \<^verbatim>\<open>NaN\<close>\<close>
  "truthyNumber n = (case n of NaN \<Rightarrow> False | Finite d \<Rightarrow> valueOf d \<noteq> 0 | PosInfinity \<Rightarrow> True | NegInfinity \<Rightarrow> True)"

definition maxToolRounds :: "Number option \<Rightarrow> Number" where
  \<comment> \<open>\<^verbatim>\<open>default: 400\<close> for an option that is not given, then \<^verbatim>\<open>args.maxToolRounds || 400\<close>\<close>
  "maxToolRounds given =
    (let configured = (case given of None \<Rightarrow> Finite (double 400) | Some n \<Rightarrow> n)
     in if truthyNumber configured then configured else Finite (double 400))"

section \<open>Names of protocol tools\<close>

text \<open>
  Modelled from the spec: the name of a protocol tool in the merged catalog. The manager that
  builds the catalog is not under src/. The spec's ToolDescriptor names a protocol-sourced tool
  by the \<^verbatim>\<open>server__toolname\<close> convention: the server's name, two underscores, the tool's
  own name. Server names are the free text given to \<^verbatim>\<open>mcp add <name>\<close>, tool names are
  what the server lists.
\<close>

definition catalogName :: "string \<Rightarrow> string \<Rightarrow> string" where
  \<comment> \<open>Modelled from the spec: the \<^verbatim>\<open>server__toolname\<close> convention of the merged catalog\<close>
  "catalogName server tool = server @ ''__'' @ tool"

section \<open>The confirmation dialog state (ConfirmationProvider) and the gate behind it\<close>

record Provider =
  options :: "ConfirmationOptions option"
  autoEditEnabled :: bool

definition handleConfirmationRequest :: "ConfirmationOptions \<Rightarrow> Provider \<Rightarrow> Provider" where
  \<comment> \<open>the listener of \<^verbatim>\<open>"confirmation-requested"\<close>: \<^verbatim>\<open>setOptions(opts)\<close>\<close>
  "handleConfirmationRequest opts p = p\<lparr>options := Some opts\<rparr>"

datatype Decision = Approved | ApprovedRemember | RejectedWith "string option"

text \<open>
  Modelled from the spec: the Confirmation Gate (ConfirmationService, whose file is not under
  src/). A request that a session flag covers resolves at once as approved and nothing is
  shown; otherwise it becomes the one outstanding request, or, when one is outstanding already,
  its caller is suspended until that one resolves. A decision resolves the outstanding request,
  a remembered approval sets the flag of its category, and the suspended callers then go on in
  the order they came. Callers are told apart by a number.
\<close>

record Gate =
  pending :: "(nat \<times> ConfirmationOptions \<times> string) option"
  waiting :: "(nat \<times> ConfirmationOptions \<times> string) list"
  flags :: SessionFlags
  resolved :: "(nat \<times> Decision) list"

definition request :: "nat \<Rightarrow> ConfirmationOptions \<Rightarrow> string \<Rightarrow> Gate \<Rightarrow> Gate \<times> ConfirmationOptions option" where
  \<comment> \<open>Modelled from the spec: \<^verbatim>\<open>request\<close> of the Confirmation Gate (ConfirmationService)\<close>
  \<comment> \<open>the second component is the request shown to the human, if one is\<close>
  "request caller opts category gate =
    (if covered (flags gate) category then (gate\<lparr>resolved := resolved gate @ [(caller, Approved)]\<rparr>, None)
     else case pending gate of
       None \<Rightarrow> (gate\<lparr>pending := Some (caller, opts, category)\<rparr>, Some opts)
     | Some p \<Rightarrow> (gate\<lparr>waiting := waiting gate @ [(caller, opts, category)]\<rparr>, None))"

definition decide :: "Decision \<Rightarrow> Gate \<Rightarrow> Gate" where
  \<comment> \<open>Modelled from the spec: a decision resolves the outstanding request of the Confirmation Gate\<close>
  "decide d gate =
    (case pending gate of
       None \<Rightarrow> gate
     | Some (caller, opts, category) \<Rightarrow>
         gate\<lparr>pending := None,
              resolved := resolved gate @ [(caller, d)],
              flags := (if d = ApprovedRemember then remember category (flags gate) else flags gate)\<rparr>)"

fun resume :: "(nat \<times> ConfirmationOptions \<times> string) list \<Rightarrow> Gate \<Rightarrow> Gate \<times> ConfirmationOptions option" where
  \<comment> \<open>Modelled from the spec: the callers suspended at the Confirmation Gate go on after a decision\<close>
  \<comment> \<open>the suspended callers make their requests again, until one has to be shown\<close>
  "resume [] gate = (gate\<lparr>waiting := []\<rparr>, None)"
| "resume ((caller, opts, category) # rest) gate =
    (if covered (flags gate) category
     then resume rest (gate\<lparr>resolved := resolved gate @ [(caller, Approved)]\<rparr>)
     else (gate\<lparr>pending := Some (caller, opts, category), waiting := rest\<rparr>, Some opts))"

datatype GateEvent =
    Requested nat ConfirmationOptions string  \<comment> \<open>a tool calls \<^verbatim>\<open>requestConfirmation\<close>\<close>
  | Confirmed bool                            \<comment> \<open>the dialog calls \<^verbatim>\<open>confirm(dontAskAgain)\<close>\<close>
  | Declined "string option"                  \<comment> \<open>the dialog calls \<^verbatim>\<open>reject(feedback)\<close>\<close>

definition shown :: "ConfirmationOptions option \<Rightarrow> Provider \<Rightarrow> Provider" where
  "shown emitted p = (case emitted of Some opts \<Rightarrow> handleConfirmationRequest opts p | None \<Rightarrow> p)"

definition settle :: "Decision \<Rightarrow> Gate \<times> Provider \<Rightarrow> Gate \<times> Provider" where
  \<comment> \<open>\<^verbatim>\<open>confirm\<close> and \<^verbatim>\<open>reject\<close> of the provider: the service is told, then
      \<^verbatim>\<open>setOptions(null)\<close>; the dialog ignores its keys while \<^verbatim>\<open>options()\<close> is null\<close>
  "settle d s =
    (if options (snd s) = None then s
     else (let decided = decide d (fst s);
               cleared = (snd s)\<lparr>options := None\<rparr>;
               resumed = resume (waiting decided) decided
           in (fst resumed, shown (snd resumed) cleared)))"

definition gateStep :: "Gate \<times> Provider \<Rightarrow> GateEvent \<Rightarrow> Gate \<times> Provider" where
  "gateStep s e =
    (case e of
       Requested caller opts category \<Rightarrow>
         (let r = request caller opts category (fst s) in (fst r, shown (snd r) (snd s)))
     | Confirmed dontAsk \<Rightarrow> settle (if dontAsk then ApprovedRemember else Approved) s
     | Declined fb \<Rightarrow> settle (RejectedWith fb) s)"

definition gateRun :: "Gate \<times> Provider \<Rightarrow> GateEvent list \<Rightarrow> Gate \<times> Provider" where
  "gateRun s events = foldl gateStep s events"

definition idle :: "SessionFlags \<Rightarrow> Gate \<times> Provider" where
  \<comment> \<open>nothing asked yet; \<^verbatim>\<open>autoEditEnabled\<close> starts as the flag for all operations\<close>
  "idle fl = (\<lparr>pending = None, waiting = [], flags = fl, resolved = []\<rparr>,
              \<lparr>options = None, autoEditEnabled = allOperations fl\<rparr>)"

definition onePrompt :: "Gate \<times> Provider \<Rightarrow> bool" where
  \<comment> \<open>the dialog shows the outstanding request and nothing else; callers wait only behind one\<close>
  "onePrompt s =
    (options (snd s) = map_option (\<lambda>p. fst (snd p)) (pending (fst s))
     \<and> (pending (fst s) = None \<longrightarrow> waiting (fst s) = []))"

section \<open>The agent's loop\<close>

text \<open>
  Modelled from the spec: the Agent Orchestrator (GrokAgent, whose file is not under src/).
  Each pass calls the model on the conversation; a final text ends the loop as done, an error
  of the model as an error; requested tool calls are executed and their results appended, the
  round counter goes up by one, and the model is called again. A counter that exceeds the
  maximum ends the loop with the round-limit outcome. The abort signal is read before each
  model call and before each tool invocation. Entries are only ever appended. The maximum is
  the number that \<^verbatim>\<open>new GrokAgent(apiKey, baseURL, model, maxToolRounds)\<close> is given; no
  counter exceeds infinity, so the loop need not end, and it is given fuel: one unit for each
  pass, and \<^term>\<open>None\<close> for a loop that is still running when the fuel is spent.
\<close>

datatype Outcome = Done | Aborted | Error string | RoundLimit

datatype ModelReply =
    FinalText string
  | ToolCallsRequested string "GrokToolCall list"
  | ModelError string

record Agent =
  model :: "ChatEntry list \<Rightarrow> ModelReply"
  dispatch :: "GrokToolCall \<Rightarrow> ToolResult"
  abortBeforeModel :: "nat \<Rightarrow> bool"                 \<comment> \<open>by round\<close>
  abortBeforeTool :: "nat \<Rightarrow> GrokToolCall \<Rightarrow> bool"  \<comment> \<open>by round and call\<close>
  clock :: "nat \<Rightarrow> nat"                              \<comment> \<open>by round\<close>

definition exceeds :: "nat \<Rightarrow> Number \<Rightarrow> bool" where
  \<comment> \<open>Modelled from the spec: the round counter exceeds the maximum of the Agent Orchestrator\<close>
  \<comment> \<open>the comparison of numbers: nothing exceeds \<^verbatim>\<open>NaN\<close> or infinity\<close>
  "exceeds rounds maxRounds =
    (case maxRounds of
       Finite d \<Rightarrow> valueOf d < of_nat rounds
     | NegInfinity \<Rightarrow> True
     | PosInfinity \<Rightarrow> False
     | NaN \<Rightarrow> False)"

fun toolRound :: "Agent \<Rightarrow> nat \<Rightarrow> GrokToolCall list \<Rightarrow> ChatEntry list \<Rightarrow> bool \<times> ChatEntry list" where
  \<comment> \<open>Modelled from the spec: the tool round of the Agent Orchestrator (GrokAgent)\<close>
  \<comment> \<open>the first component tells whether the round was aborted\<close>
  "toolRound a rounds [] entries = (False, entries)"
| "toolRound a rounds (call # calls) entries =
    (if abortBeforeTool a rounds call then (True, entries)
     else toolRound a rounds calls
            (entries @ [(plainEntry Type_tool_result (resultContent (dispatch a call)) (clock a rounds))
                          \<lparr>entry_toolCall := Some call, entry_toolResult := Some (dispatch a call)\<rparr>]))"

fun orchestrate :: "nat \<Rightarrow> Number \<Rightarrow> Agent \<Rightarrow> nat \<Rightarrow> ChatEntry list \<Rightarrow> (Outcome \<times> ChatEntry list) option" where
  \<comment> \<open>Modelled from the spec: the loop of the Agent Orchestrator (GrokAgent)\<close>
  \<comment> \<open>the first argument is the fuel\<close>
  "orchestrate 0 maxRounds a rounds entries = None"
| "orchestrate (Suc fuel) maxRounds a rounds entries =
    (if exceeds rounds maxRounds then Some (RoundLimit, entries)
     else if abortBeforeModel a rounds then Some (Aborted, entries)
     else (case model a entries of
             ModelError message \<Rightarrow> Some (Error message, entries)
           | FinalText t \<Rightarrow> Some (Done, entries @ [plainEntry Type_assistant t (clock a rounds)])
           | ToolCallsRequested t calls \<Rightarrow>
               (let asked = entries @ [(plainEntry Type_assistant t (clock a rounds))\<lparr>entry_toolCalls := Some calls\<rparr>];
                    done = toolRound a rounds calls asked
                in if fst done then Some (Aborted, snd done)
                   else orchestrate fuel maxRounds a (rounds + 1) (snd done))))"


section \<open>Notions used in the statements\<close>

fun isConfirm :: "Effect \<Rightarrow> bool" where
  "isConfirm (Confirm opts category) = True"
| "isConfirm e = False"

definition confirmations :: "Effect list \<Rightarrow> Effect list" where
  \<comment> \<open>the calls of \<^verbatim>\<open>requestConfirmation\<close> in a trace\<close>
  "confirmations trace = filter isConfirm trace"

definition commands :: "Effect list \<Rightarrow> Effect list" where
  \<comment> \<open>everything else in a trace\<close>
  "commands trace = filter (\<lambda>e. \<not> isConfirm e) trace"

definition withoutPrompts :: "ToolResult \<times> Effect list \<Rightarrow> ToolResult \<times> Effect list" where
  "withoutPrompts r = (fst r, commands (snd r))"

definition approving :: "World \<Rightarrow> World" where
  \<comment> \<open>the same commands, no session flag, and a human who approves every request\<close>
  "approving w =
    w\<lparr>requestConfirmation := (\<lambda>opts category. \<lparr>confirmed = True, dontAskAgain = False, feedback = None\<rparr>),
      getSessionFlags := \<lparr>fileOperations = False, bashCommands = False, allOperations = False\<rparr>\<rparr>"

fun faulted :: "World \<Rightarrow> Sandbox \<Rightarrow> Effect \<Rightarrow> bool" where
  \<comment> \<open>the call failed: the promise was rejected\<close>
  "faulted w sb (Exec command) = (case execAsync w command of Rejected message \<Rightarrow> True | Completed out err \<Rightarrow> False)"
| "faulted w sb (Mkdtemp p) = (case mkdtemp sb p of Inl message \<Rightarrow> True | Inr dir \<Rightarrow> False)"
| "faulted w sb (WriteFile p v) = (writeFile sb p v \<noteq> None)"
| "faulted w sb (Confirm opts category) = False"

fun isCleanup :: "Effect \<Rightarrow> bool" where
  \<comment> \<open>the two commands of the \<^verbatim>\<open>finally\<close> block of \<^verbatim>\<open>runCode\<close>\<close>
  "isCleanup (Exec command) = (prefix ''docker rm -f '' command \<or> prefix ''rm -rf '' command)"
| "isCleanup e = False"

definition present :: "string option \<Rightarrow> bool" where
  \<comment> \<open>a field that is there and not empty\<close>
  "present v = (case v of Some s \<Rightarrow> s \<noteq> [] | None \<Rightarrow> False)"

definition wellFormed :: "ToolResult \<Rightarrow> bool" where
  "wellFormed r = (if success r then present (outputText r) \<and> error r = None else present (error r))"

fun mutating :: "World \<Rightarrow> Invocation \<Rightarrow> bool" where
  \<comment> \<open>the invocations that reach the confirmation check: a gated operation whose arguments
      pass the checks before it\<close>
  "mutating w (Systemctl op serviceName) =
    (truthy serviceName \<and> op \<in> set [''start'', ''stop'', ''restart'', ''enable'', ''disable''])"
| "mutating w (Apt op args) =
    ((op \<in> set [''install'', ''remove''] \<and> truthy (arg args 0)) \<or> op \<in> set [''update'', ''upgrade''])"
| "mutating w (CodeExecution op args) =
    ((case execAsync w ''docker --version'' of Completed out err \<Rightarrow> True | Rejected message \<Rightarrow> False)
     \<and> truthy (arg args 1)
     \<and> (op = ''run'' \<and> truthy (arg args 0)
        \<or> op = ''test'' \<and> (truthy (arg args 0) \<or> map_of testInputs (interp (arg args 1)) \<noteq> None
                            \<or> interp (arg args 1) \<in> set objectPrototypeKeys)))"
| "mutating w (Network op args) = False"
| "mutating w (Disk op args) = False"

fun cancelMessage :: "Invocation \<Rightarrow> string" where
  \<comment> \<open>what each gated tool writes after \<^verbatim>\<open>confirmationResult.feedback ||\<close>; the two tools
      without a confirmation check have no such message\<close>
  "cancelMessage (Systemctl op serviceName) = ''Systemctl command cancelled by user''"
| "cancelMessage (Apt op args) = ''Apt command cancelled by user''"
| "cancelMessage (CodeExecution op args) = ''Code execution cancelled by user''"
| "cancelMessage (Network op args) = []"
| "cancelMessage (Disk op args) = []"

definition faultsReported :: "World \<Rightarrow> Sandbox \<Rightarrow> ToolResult \<times> Effect list \<Rightarrow> bool" where
  \<comment> \<open>a failed call, other than the probe for speedtest-cli and the cleanup, gives a failure\<close>
  "faultsReported w sb r =
    (\<forall>e \<in> set (snd r). faulted w sb e \<and> e \<noteq> Exec ''which speedtest-cli'' \<and> \<not> isCleanup e
        \<longrightarrow> \<not> success (fst r) \<and> present (error (fst r)))"

definition touchable :: "StreamingChunk \<Rightarrow> ChatEntry \<Rightarrow> bool" where
  \<comment> \<open>the entries a chunk may change: those marked as streaming and, for a tool result,
      the tool-call entries of its call\<close>
  "touchable chunk entry =
    (streaming entry
     \<or> (chunk_type chunk = Chunk_tool_result
        \<and> (case chunk_toolCall chunk of Some toolCall \<Rightarrow> sameCall entry toolCall | None \<Rightarrow> False)))"

definition settled :: "ChatEntry \<Rightarrow> bool" where
  "settled entry = (\<not> streaming entry \<and> entry_type entry \<noteq> Type_tool_call)"

definition isDelta :: "StreamingChunk \<Rightarrow> bool" where
  \<comment> \<open>a content chunk that carries text\<close>
  "isDelta chunk = (chunk_type chunk = Chunk_content \<and> truthy (chunk_content chunk))"

definition deltas :: "(nat \<times> StreamingChunk) list \<Rightarrow> string list" where
  \<comment> \<open>the texts of the content chunks of a stream, in order\<close>
  "deltas chunks = map (\<lambda>timed. the (chunk_content (snd timed))) (filter (\<lambda>timed. isDelta (snd timed)) chunks)"

definition deltasOnly :: "(nat \<times> StreamingChunk) list \<Rightarrow> bool" where
  \<comment> \<open>nothing but content and token-count chunks\<close>
  "deltasOnly chunks =
    list_all (\<lambda>timed. chunk_type (snd timed) = Chunk_content \<or> chunk_type (snd timed) = Chunk_token_count) chunks"

definition closes :: "StreamingChunk \<Rightarrow> bool" where
  \<comment> \<open>a tool-calls chunk that carries its calls, or a tool-result chunk that carries its call
      and its result\<close>
  "closes chunk =
    (chunk_type chunk = Chunk_tool_calls \<and> chunk_toolCalls chunk \<noteq> None
     \<or> chunk_type chunk = Chunk_tool_result \<and> chunk_toolCall chunk \<noteq> None \<and> chunk_toolResult chunk \<noteq> None)"

definition withoutPayload :: "StreamingChunk \<Rightarrow> bool" where
  \<comment> \<open>a tool-calls chunk without calls, or a tool-result chunk that lacks its call or its result\<close>
  "withoutPayload chunk =
    (chunk_type chunk = Chunk_tool_calls \<and> chunk_toolCalls chunk = None
     \<or> chunk_type chunk = Chunk_tool_result \<and> (chunk_toolCall chunk = None \<or> chunk_toolResult chunk = None))"

definition assistants :: "ChatState \<Rightarrow> ChatEntry list" where
  "assistants chat = filter (\<lambda>entry. entry_type entry = Type_assistant) (history chat)"

definition toolRounds :: "ChatEntry list \<Rightarrow> nat" where
  \<comment> \<open>the tool-execution rounds in a conversation: the replies of the model that ask for tools\<close>
  "toolRounds entries =
    length (filter (\<lambda>entry. entry_type entry = Type_assistant \<and> entry_toolCalls entry \<noteq> None) entries)"

definition insists :: "Agent \<Rightarrow> bool" where
  \<comment> \<open>the model asks for tools on every pass and nothing aborts\<close>
  "insists a =
    ((\<forall>es. \<exists>t calls. model a es = ToolCallsRequested t calls)
     \<and> (\<forall>r. \<not> abortBeforeModel a r) \<and> (\<forall>r c. \<not> abortBeforeTool a r c))"

fun doubled :: "string \<Rightarrow> bool" where
  \<comment> \<open>two underscores in a row somewhere in the text\<close>
  "doubled (c # d # cs) = (c = CHR ''_'' \<and> d = CHR ''_'' \<or> doubled (d # cs))"
| "doubled cs = False"

definition separable :: "string \<Rightarrow> bool" where
  \<comment> \<open>a server name that neither ends in an underscore nor has two underscores in a row\<close>
  "separable server = (\<not> doubled server \<and> (server = [] \<or> last server \<noteq> CHR ''_''))"

definition builtinNames :: "string list" where
  \<comment> \<open>the names of the tools of this repository that the sources under src/ mention\<close>
  "builtinNames =
    [''view_file'', ''str_replace_editor'', ''create_file'', ''bash'', ''search'', ''web_search'',
     ''create_todo_list'', ''update_todo_list'', ''apt'', ''systemctl'', ''disk'', ''network'',
     ''code_execution'']"

section \<open>Concrete inputs\<close>

definition noFlags :: SessionFlags where
  "noFlags = \<lparr>fileOperations = False, bashCommands = False, allOperations = False\<rparr>"

definition rejecting :: "string option \<Rightarrow> SessionFlags \<Rightarrow> World" where
  \<comment> \<open>every command prints \<^verbatim>\<open>ok\<close>; the human rejects every request with the given feedback\<close>
  "rejecting fb fl =
    \<lparr>execAsync = (\<lambda>command. Completed ''ok'' []),
     requestConfirmation = (\<lambda>opts category. \<lparr>confirmed = False, dontAskAgain = False, feedback = fb\<rparr>),
     getSessionFlags = fl\<rparr>"

definition failing :: "string \<Rightarrow> World" where
  \<comment> \<open>the given command fails, every other one prints \<^verbatim>\<open>ok\<close>; no flag, every request approved\<close>
  "failing bad =
    \<lparr>execAsync = (\<lambda>command. if command = bad then Rejected ''Command failed'' else Completed ''ok'' []),
     requestConfirmation = (\<lambda>opts category. \<lparr>confirmed = True, dontAskAgain = False, feedback = None\<rparr>),
     getSessionFlags = noFlags\<rparr>"

definition sandbox :: Sandbox where
  "sandbox =
    \<lparr>tmpdir = ''/tmp'',
     mkdtemp = (\<lambda>p. Inr (p @ ''Ab3dE9'')),
     writeFile = (\<lambda>p v. None),
     containerSuffix = ''1700000000000-k3j9x2m1q'',
     memberLength = (\<lambda>k. ''1''),
     joinTypeError = ''The path argument must be of type string''\<rparr>"


definition emptyChat :: ChatState where
  "emptyChat = \<lparr>history = [], isProcessing = False, isStreaming = False, tokenCount = 0, processingTime = 0\<rparr>"

definition chunkOf :: "ChunkType \<Rightarrow> StreamingChunk" where
  "chunkOf t = \<lparr>chunk_type = t, chunk_content = None, chunk_tokenCount = None, chunk_toolCalls = None,
                chunk_toolCall = None, chunk_toolResult = None\<rparr>"

definition contentChunk :: "string \<Rightarrow> StreamingChunk" where
  "contentChunk s = (chunkOf Chunk_content)\<lparr>chunk_content := Some s\<rparr>"

definition toolCallsChunk :: "GrokToolCall list \<Rightarrow> StreamingChunk" where
  "toolCallsChunk calls = (chunkOf Chunk_tool_calls)\<lparr>chunk_toolCalls := Some calls\<rparr>"

definition toolResultChunk :: "GrokToolCall \<Rightarrow> ToolResult \<Rightarrow> StreamingChunk" where
  "toolResultChunk toolCall r = (chunkOf Chunk_tool_result)\<lparr>chunk_toolCall := Some toolCall, chunk_toolResult := Some r\<rparr>"

definition callA :: GrokToolCall where
  "callA = \<lparr>call_id = ''call_a'', call_name = ''bash'', call_arguments = ''{}''\<rparr>"

definition callB :: GrokToolCall where
  "callB = \<lparr>call_id = ''call_b'', call_name = ''bash'', call_arguments = ''{}''\<rparr>"

definition insistent :: Agent where
  \<comment> \<open>a model that asks for the same tool call on every pass; nothing aborts\<close>
  "insistent =
    \<lparr>model = (\<lambda>entries. ToolCallsRequested [] [\<lparr>call_id = ''call_a'', call_name = ''bash'', call_arguments = ''{}''\<rparr>]),
     dispatch = (\<lambda>toolCall. succeeded ''ok''),
     abortBeforeModel = (\<lambda>rounds. False),
     abortBeforeTool = (\<lambda>rounds toolCall. False),
     clock = (\<lambda>rounds. rounds)\<rparr>"

definition askStop :: ConfirmationOptions where
  "askStop = \<lparr>operation = ''Run systemctl command'', filename = ''systemctl stop nginx'',
               showVSCodeOpen = False, content = Some ''Command: sudo systemctl stop nginx''\<rparr>"

definition askUpdate :: ConfirmationOptions where
  "askUpdate = \<lparr>operation = ''Run apt command'', filename = ''apt update'',
                 showVSCodeOpen = False, content = Some ''Command: sudo apt update''\<rparr>"

definition twoCalls :: "ChatState \<times> ChatEntry option" where
  \<comment> \<open>the state after a tool-calls chunk with two calls\<close>
  "twoCalls =
    (emptyChat\<lparr>history := [(plainEntry Type_tool_call ''Executing...'' 1)\<lparr>entry_toolCall := Some callA\<rparr>,
                             (plainEntry Type_tool_call ''Executing...'' 1)\<lparr>entry_toolCall := Some callB\<rparr>]\<rparr>,
     None)"

definition twoRequests :: "Gate \<times> Provider" where
  \<comment> \<open>one request outstanding and shown, a second caller waiting\<close>
  "twoRequests =
    (\<lparr>pending = Some (1, askStop, ''bash''), waiting = [(2, askUpdate, ''bash'')],
      flags = noFlags, resolved = []\<rparr>,
     \<lparr>options = Some askStop, autoEditEnabled = False\<rparr>)"

section \<open>Facts about the tools\<close>

lemmas systemctl_defs = SystemctlTool_execute_def SystemctlTool_start_def SystemctlTool_stop_def
  SystemctlTool_restart_def SystemctlTool_status_def SystemctlTool_enable_def SystemctlTool_disable_def
  SystemctlTool_isActive_def SystemctlTool_isEnabled_def describeService_def

lemmas apt_defs = AptTool_execute_def AptTool_install_def AptTool_remove_def AptTool_update_def
  AptTool_upgrade_def AptTool_search_def AptTool_show_def

lemmas network_defs = NetworkTool_execute_def NetworkTool_ping_def NetworkTool_traceroute_def
  NetworkTool_interfaces_def NetworkTool_connections_def NetworkTool_dnsLookup_def NetworkTool_speedTest_def

lemmas disk_defs = DiskTool_execute_def DiskTool_usage_def DiskTool_free_def DiskTool_diskUsage_def
  DiskTool_findLargeFiles_def DiskTool_cleanupSuggestions_def

lemma approving_simps [simp]:
  "execAsync (approving w) = execAsync w"
  "confirmed (requestConfirmation (approving w) opts category)"
  "\<not> bashCommands (getSessionFlags (approving w))"
  "\<not> allOperations (getSessionFlags (approving w))"
  by (simp_all add: approving_def)

lemma systemctl_runCommand_flag:
  assumes "bashCommands (getSessionFlags w) \<or> allOperations (getSessionFlags w)"
  shows "SystemctlTool_runCommand w c rc = withoutPrompts (SystemctlTool_runCommand (approving w) c rc)"
  using assms
  by (auto simp: SystemctlTool_runCommand_def withoutPrompts_def commands_def Let_def split: ExecOutcome.splits)

lemma withoutPrompts_describe: "describeService n (withoutPrompts r) = withoutPrompts (describeService n r)"
  by (simp add: describeService_def withoutPrompts_def Let_def)

lemma withoutPrompts_nil [simp]: "withoutPrompts (r, []) = (r, [])"
  by (simp add: withoutPrompts_def commands_def)

lemma systemctl_flag:
  assumes "bashCommands (getSessionFlags w) \<or> allOperations (getSessionFlags w)"
  shows "SystemctlTool_execute w op name = withoutPrompts (SystemctlTool_execute (approving w) op name)"
  by (simp add: systemctl_runCommand_flag[OF assms] SystemctlTool_execute_def SystemctlTool_start_def SystemctlTool_stop_def
  SystemctlTool_restart_def SystemctlTool_status_def SystemctlTool_enable_def SystemctlTool_disable_def
  SystemctlTool_isActive_def SystemctlTool_isEnabled_def Let_def withoutPrompts_describe)

lemma apt_runCommand_flag:
  assumes "bashCommands (getSessionFlags w) \<or> allOperations (getSessionFlags w)"
  shows "AptTool_runCommand w c rc = withoutPrompts (AptTool_runCommand (approving w) c rc)"
  using assms
  by (auto simp: AptTool_runCommand_def withoutPrompts_def commands_def Let_def split: ExecOutcome.splits)

lemma apt_flag:
  assumes "bashCommands (getSessionFlags w) \<or> allOperations (getSessionFlags w)"
  shows "AptTool_execute w op args = withoutPrompts (AptTool_execute (approving w) op args)"
  by (simp add: apt_runCommand_flag[OF assms] apt_defs)

lemma network_runCommand_any: "NetworkTool_runCommand w c = withoutPrompts (NetworkTool_runCommand (approving w) c)"
  by (auto simp: NetworkTool_runCommand_def withoutPrompts_def commands_def split: ExecOutcome.splits)

lemma network_any: "NetworkTool_execute w op args = withoutPrompts (NetworkTool_execute (approving w) op args)"
  apply (simp add: network_defs)
  apply (auto simp: network_runCommand_any[of w] withoutPrompts_def commands_def Let_def split: ExecOutcome.splits)
  done

lemma disk_runCommand_any: "DiskTool_runCommand w c = withoutPrompts (DiskTool_runCommand (approving w) c)"
  by (auto simp: DiskTool_runCommand_def withoutPrompts_def commands_def split: ExecOutcome.splits)

lemma disk_any: "DiskTool_execute w op args = withoutPrompts (DiskTool_execute (approving w) op args)"
  by (simp add: disk_defs disk_runCommand_any[of w])

lemma runDocker_trace: "commands (snd (runDocker w cfg lang name tempDir inputPath)) = snd (runDocker w cfg lang name tempDir inputPath)"
  by (simp add: runDocker_def commands_def Let_def split: ExecOutcome.splits)

lemma runDocker_approving [simp]: "runDocker (approving w) cfg lang name t i = runDocker w cfg lang name t i"
  by (simp add: runDocker_def)

lemma writeInput_approving [simp]: "writeInput (approving w) sb cfg lang name t i = writeInput w sb cfg lang name t i"
  by (simp add: writeInput_def Let_def split: option.splits)

lemma writeCode_approving [simp]: "writeCode (approving w) sb code lang name t i = writeCode w sb code lang name t i"
  by (simp add: writeCode_def Let_def split: option.splits)

lemma runInContainer_approving [simp]: "runInContainer (approving w) sb code lang i = runInContainer w sb code lang i"
  by (simp add: runInContainer_def Let_def split: sum.splits)

lemma writeInput_trace: "commands (snd (writeInput w sb cfg lang name tempDir input)) = snd (writeInput w sb cfg lang name tempDir input)"
  using runDocker_trace[of w cfg lang name tempDir]
  by (simp add: writeInput_def commands_def Let_def split: option.splits)

lemma writeCode_trace: "commands (snd (writeCode w sb code lang name tempDir input)) = snd (writeCode w sb code lang name tempDir input)"
  using writeInput_trace[of w sb _ lang name tempDir input]
  by (simp add: writeCode_def commands_def Let_def split: option.splits)

lemma runInContainer_trace: "commands (snd (runInContainer w sb code lang input)) = snd (runInContainer w sb code lang input)"
  using writeCode_trace[of w sb code lang _ _ input]
  by (simp add: runInContainer_def commands_def cleanup_def Let_def split: sum.splits)

lemma runCode_flag:
  assumes "bashCommands (getSessionFlags w) \<or> allOperations (getSessionFlags w)"
  shows "CodeExecutionTool_runCode w sb code lang input = withoutPrompts (CodeExecutionTool_runCode (approving w) sb code lang input)"
  using assms runInContainer_trace[of w sb "the code" "the lang" input]
  by (auto simp: CodeExecutionTool_runCode_def withoutPrompts_def commands_def Let_def split: ExecOutcome.splits)

lemma code_flag:
  assumes "bashCommands (getSessionFlags w) \<or> allOperations (getSessionFlags w)"
  shows "CodeExecutionTool_execute w sb op args = withoutPrompts (CodeExecutionTool_execute (approving w) sb op args)"
  by (simp add: runCode_flag[OF assms] CodeExecutionTool_execute_def CodeExecutionTool_testCode_def)

lemma confirmations_withoutPrompts: "confirmations (snd (withoutPrompts r)) = []"
  by (simp add: withoutPrompts_def confirmations_def commands_def)

lemma invoke_flagged:
  assumes "bashCommands (getSessionFlags w) \<or> allOperations (getSessionFlags w)"
  shows "invoke w sb call = withoutPrompts (invoke (approving w) sb call)"
  by (cases call) (simp_all add: invoke_def systemctl_flag[OF assms] apt_flag[OF assms]
        code_flag[OF assms] network_any[of w] disk_any[of w])

lemma trim_ok: "trim ''ok'' = ''ok''"
  by (simp add: trim_def isWhiteSpace_def)

lemma present_simps [simp]:
  "present None = False"
  "present (Some s) = (s \<noteq> [])"
  by (simp_all add: present_def)

lemma nonEmptyOr_nonempty [simp]: "d \<noteq> [] \<Longrightarrow> nonEmptyOr s d \<noteq> []"
  by (simp add: nonEmptyOr_def)

lemma orElse_nonempty_any [simp]: "d \<noteq> [] \<Longrightarrow> orElse v d \<noteq> []"
  by (simp add: orElse_def split: option.splits)

lemma failed_simps [simp]:
  "success (failed m) = False" "error (failed m) = Some m" "outputText (failed m) = None"
  by (simp_all add: failed_def)

lemma succeeded_simps [simp]:
  "success (succeeded m) = True" "error (succeeded m) = None" "outputText (succeeded m) = Some m"
  by (simp_all add: succeeded_def)

lemma executionFailed_simps [simp]:
  "success (executionFailed m l n) = False" "error (executionFailed m l n) = Some (''Code execution failed: '' @ m)"
  by (simp_all add: executionFailed_def)

lemma wellFormed_failed [simp]: "m \<noteq> [] \<Longrightarrow> wellFormed (failed m)"
  by (simp add: wellFormed_def)

lemma wellFormed_describe: "wellFormed (fst r) \<Longrightarrow> wellFormed (fst (describeService n r))"
  by (simp add: describeService_def wellFormed_def Let_def)

lemma systemctl_runCommand_wf: "wellFormed (fst (SystemctlTool_runCommand w c rc))"
  by (simp add: SystemctlTool_runCommand_def Let_def wellFormed_def split: ExecOutcome.splits)

lemma apt_runCommand_wf: "wellFormed (fst (AptTool_runCommand w c rc))"
  by (simp add: AptTool_runCommand_def Let_def wellFormed_def split: ExecOutcome.splits)

lemma network_runCommand_wf: "wellFormed (fst (NetworkTool_runCommand w c))"
  by (simp add: NetworkTool_runCommand_def Let_def wellFormed_def split: ExecOutcome.splits)

lemma disk_runCommand_wf: "wellFormed (fst (DiskTool_runCommand w c))"
  by (simp add: DiskTool_runCommand_def Let_def wellFormed_def split: ExecOutcome.splits)

lemma speedTest_wf: "wellFormed (fst (NetworkTool_speedTest w))"
  using network_runCommand_wf[of w]
  by (simp add: NetworkTool_speedTest_def Let_def wellFormed_def split: ExecOutcome.splits)

lemma cleanup_wf: "wellFormed (fst DiskTool_cleanupSuggestions)"
  by (simp add: DiskTool_cleanupSuggestions_def wellFormed_def)

lemma runDocker_wf: "wellFormed (fst (runDocker w cfg lang name t i))"
  by (simp add: runDocker_def Let_def wellFormed_def split: ExecOutcome.splits)

lemma wellFormed_executionFailed [simp]: "wellFormed (executionFailed m l n)"
  by (simp add: wellFormed_def)

lemma writeInput_wf: "wellFormed (fst (writeInput w sb cfg lang name t i))"
  by (simp add: writeInput_def Let_def runDocker_wf split: option.splits)

lemma writeCode_wf: "wellFormed (fst (writeCode w sb code lang name t i))"
  by (simp add: writeCode_def Let_def writeInput_wf split: option.splits)

lemma runInContainer_wf: "wellFormed (fst (runInContainer w sb code lang i))"
  by (simp add: runInContainer_def Let_def writeCode_wf split: sum.splits)

lemma runCode_wf: "wellFormed (fst (CodeExecutionTool_runCode w sb code lang i))"
  by (simp add: CodeExecutionTool_runCode_def Let_def runInContainer_wf split: ExecOutcome.splits)

lemma systemctl_wf: "wellFormed (fst (SystemctlTool_execute w op name))"
  by (simp add: systemctl_defs Let_def systemctl_runCommand_wf wellFormed_describe[unfolded describeService_def Let_def])

lemma apt_wf: "wellFormed (fst (AptTool_execute w op args))"
  by (simp add: apt_defs apt_runCommand_wf)

lemma network_wf: "wellFormed (fst (NetworkTool_execute w op args))"
  by (simp add: NetworkTool_execute_def NetworkTool_ping_def NetworkTool_traceroute_def
  NetworkTool_interfaces_def NetworkTool_connections_def NetworkTool_dnsLookup_def network_runCommand_wf speedTest_wf)

lemma disk_wf: "wellFormed (fst (DiskTool_execute w op args))"
  by (simp add: DiskTool_execute_def DiskTool_usage_def DiskTool_free_def DiskTool_diskUsage_def
  DiskTool_findLargeFiles_def disk_runCommand_wf cleanup_wf)

lemma code_wf: "wellFormed (fst (CodeExecutionTool_execute w sb op args))"
  by (simp add: CodeExecutionTool_execute_def CodeExecutionTool_testCode_def runCode_wf)

lemma orElse_nonempty: "f \<noteq> [] \<Longrightarrow> orElse (Some f) d = f"
  by (simp add: orElse_def)

lemma orElse_empty: "orElse (Some []) d = d" "orElse None d = d"
  by (simp_all add: orElse_def)

lemma describe_snd [simp]: "snd (describeService n r) = snd r"
  by (simp add: describeService_def Let_def)

lemma describe_failed: "\<not> success (fst r) \<Longrightarrow> describeService n r = r"
  by (simp add: describeService_def Let_def)

lemma systemctl_runCommand_reject:
  assumes "\<not> bashCommands (getSessionFlags w)" "\<not> allOperations (getSessionFlags w)"
      and "\<And>opts. \<not> confirmed (requestConfirmation w opts ''bash'')"
      and "\<And>opts. feedback (requestConfirmation w opts ''bash'') = fb"
  shows "fst (SystemctlTool_runCommand w c True) = failed (orElse fb ''Systemctl command cancelled by user'')
       \<and> commands (snd (SystemctlTool_runCommand w c True)) = []
       \<and> confirmations (snd (SystemctlTool_runCommand w c True)) \<noteq> []"
  using assms
  by (simp add: SystemctlTool_runCommand_def Let_def commands_def confirmations_def)

lemma systemctl_runCommand_free:
  "confirmations (snd (SystemctlTool_runCommand w c False)) = []"
  by (simp add: SystemctlTool_runCommand_def Let_def confirmations_def split: ExecOutcome.splits)

lemma systemctl_gated:
  assumes "mutating w (Systemctl op name)"
  shows "SystemctlTool_execute w op name
         = SystemctlTool_runCommand w (''systemctl '' @ op @ '' '' @ the name) True"
proof -
  from assms have t: "truthy name" by simp
  from assms have "op = ''start'' \<or> op = ''stop'' \<or> op = ''restart'' \<or> op = ''enable'' \<or> op = ''disable''"
    by simp
  then show ?thesis
    by (elim disjE) (simp_all add: t systemctl_defs)
qed

lemma systemctl_ungated:
  assumes "\<not> mutating w (Systemctl op name)"
  shows "confirmations (snd (SystemctlTool_execute w op name)) = []"
proof (cases "truthy name")
  case False
  then show ?thesis by (simp add: SystemctlTool_execute_def confirmations_def)
next
  case True
  with assms have "op \<noteq> ''start''" "op \<noteq> ''stop''" "op \<noteq> ''restart''" "op \<noteq> ''enable''" "op \<noteq> ''disable''"
    by auto
  then show ?thesis
    by (simp add: systemctl_defs Let_def systemctl_runCommand_free) (simp add: confirmations_def)
qed

lemma apt_runCommand_reject:
  assumes "\<not> bashCommands (getSessionFlags w)" "\<not> allOperations (getSessionFlags w)"
      and "\<And>opts. \<not> confirmed (requestConfirmation w opts ''bash'')"
      and "\<And>opts. feedback (requestConfirmation w opts ''bash'') = fb"
  shows "fst (AptTool_runCommand w c True) = failed (orElse fb ''Apt command cancelled by user'')
       \<and> commands (snd (AptTool_runCommand w c True)) = []
       \<and> confirmations (snd (AptTool_runCommand w c True)) \<noteq> []"
  using assms
  by (simp add: AptTool_runCommand_def Let_def commands_def confirmations_def)

lemma apt_runCommand_free:
  "confirmations (snd (AptTool_runCommand w c False)) = []"
  by (simp add: AptTool_runCommand_def Let_def confirmations_def split: ExecOutcome.splits)

lemma apt_gated:
  assumes "mutating w (Apt op args)"
  shows "AptTool_execute w op args
         = AptTool_runCommand w
             (if op = ''install'' then ''apt install -y '' @ interp (arg args 0)
              else if op = ''remove'' then ''apt remove -y '' @ interp (arg args 0)
              else if op = ''update'' then ''apt update''
              else ''apt upgrade -y'') True"
proof -
  from assms consider
      (install) "op = ''install''" "truthy (arg args 0)"
    | (remove) "op = ''remove''" "truthy (arg args 0)"
    | (update) "op = ''update''"
    | (upgrade) "op = ''upgrade''"
    by auto
  then show ?thesis
    by cases (simp_all add: apt_defs)
qed

lemma apt_ungated:
  assumes "\<not> mutating w (Apt op args)"
  shows "confirmations (snd (AptTool_execute w op args)) = []"
proof -
  from assms have ne: "op \<noteq> ''update''" "op \<noteq> ''upgrade''" by auto
  from assms have un: "op = ''install'' \<or> op = ''remove'' \<Longrightarrow> \<not> truthy (arg args 0)" by auto
  show ?thesis
    using ne un by (simp add: apt_defs apt_runCommand_free) (simp add: confirmations_def)
qed

lemma network_runCommand_free: "confirmations (snd (NetworkTool_runCommand w c)) = []"
  by (simp add: NetworkTool_runCommand_def confirmations_def split: ExecOutcome.splits)

lemma network_free: "confirmations (snd (NetworkTool_execute w op args)) = []"
  using network_any[of w op args] confirmations_withoutPrompts by metis

lemma disk_free: "confirmations (snd (DiskTool_execute w op args)) = []"
  using disk_any[of w op args] confirmations_withoutPrompts by metis

lemma runCode_reject:
  assumes "\<not> bashCommands (getSessionFlags w)" "\<not> allOperations (getSessionFlags w)"
      and "\<And>opts. \<not> confirmed (requestConfirmation w opts ''bash'')"
      and "\<And>opts. feedback (requestConfirmation w opts ''bash'') = fb"
      and "execAsync w ''docker --version'' = Completed out err"
      and "code \<noteq> None" "code \<noteq> Some (Text [])" "truthy lang"
  shows "fst (CodeExecutionTool_runCode w sb code lang input) = failed (orElse fb ''Code execution cancelled by user'')
       \<and> commands (snd (CodeExecutionTool_runCode w sb code lang input)) = [Exec ''docker --version'']
       \<and> confirmations (snd (CodeExecutionTool_runCode w sb code lang input)) \<noteq> []"
  using assms
  by (simp add: CodeExecutionTool_runCode_def Let_def commands_def confirmations_def)

lemma runCode_unasked:
  assumes "(case execAsync w ''docker --version'' of Completed out err \<Rightarrow> False | Rejected message \<Rightarrow> True)
           \<or> code = None \<or> code = Some (Text []) \<or> \<not> truthy lang"
  shows "confirmations (snd (CodeExecutionTool_runCode w sb code lang input)) = []"
proof (cases "code = None \<or> code = Some (Text []) \<or> \<not> truthy lang")
  case True
  then show ?thesis
    by (auto simp add: CodeExecutionTool_runCode_def confirmations_def)
next
  case False
  with assms obtain message where "execAsync w ''docker --version'' = Rejected message"
    by (cases "execAsync w ''docker --version''") auto
  with False show ?thesis
    by (simp add: CodeExecutionTool_runCode_def confirmations_def)
qed

lemma map_option_Text_truthy: "(map_option Text v \<noteq> None \<and> map_option Text v \<noteq> Some (Text [])) = truthy v"
  by (cases v) (auto simp: truthy_def)

lemma testInputs_nonempty: "map_of testInputs k = Some t \<Longrightarrow> t \<noteq> []"
  by (auto simp: testInputs_def dquote_def split: if_splits)

lemma testInput_truthy:
  "(testInput code lang \<noteq> None \<and> testInput code lang \<noteq> Some (Text []))
   = (truthy code \<or> map_of testInputs (interp lang) \<noteq> None \<or> interp lang \<in> set objectPrototypeKeys)"
proof (cases "map_of testInputs (interp lang)")
  case None
  then show ?thesis using map_option_Text_truthy[of code] by (auto simp: testInput_def)
next
  case (Some t)
  then have "t \<noteq> []" by (rule testInputs_nonempty)
  with Some show ?thesis by (simp add: testInput_def)
qed

lemma code_gated:
  assumes "mutating w (CodeExecution op args)"
  shows "\<exists>code. code \<noteq> None \<and> code \<noteq> Some (Text [])
           \<and> CodeExecutionTool_execute w sb op args
               = CodeExecutionTool_runCode w sb code (arg args 1) (if op = ''run'' then arg args 2 else None)"
proof -
  from assms(1) have o: "op = ''run'' \<and> truthy (arg args 0)
        \<or> op = ''test'' \<and> (truthy (arg args 0) \<or> map_of testInputs (interp (arg args 1)) \<noteq> None
                            \<or> interp (arg args 1) \<in> set objectPrototypeKeys)"
    by simp
  show ?thesis
  proof (cases "op = ''run''")
    case True
    with o have a: "op = ''run''" "truthy (arg args 0)" by simp_all
    have "map_option Text (arg args 0) \<noteq> None \<and> map_option Text (arg args 0) \<noteq> Some (Text [])
        \<and> CodeExecutionTool_execute w sb op args
               = CodeExecutionTool_runCode w sb (map_option Text (arg args 0)) (arg args 1)
                   (if op = ''run'' then arg args 2 else None)"
      using a map_option_Text_truthy[of "arg args 0"]
      by (simp add: CodeExecutionTool_execute_def)
    then show ?thesis by (rule exI)
  next
    case False
    with o have a: "op = ''test''" "truthy (arg args 0) \<or> map_of testInputs (interp (arg args 1)) \<noteq> None
                            \<or> interp (arg args 1) \<in> set objectPrototypeKeys" by simp_all
    have "testInput (arg args 0) (arg args 1) \<noteq> None \<and> testInput (arg args 0) (arg args 1) \<noteq> Some (Text [])
        \<and> CodeExecutionTool_execute w sb op args
               = CodeExecutionTool_runCode w sb (testInput (arg args 0) (arg args 1)) (arg args 1)
                   (if op = ''run'' then arg args 2 else None)"
      using a testInput_truthy[of "arg args 0" "arg args 1"]
      by (simp add: CodeExecutionTool_execute_def CodeExecutionTool_testCode_def)
    then show ?thesis by (rule exI)
  qed
qed

lemma code_gated_docker:
  assumes "mutating w (CodeExecution op args)"
  shows "\<exists>out err. execAsync w ''docker --version'' = Completed out err" and "truthy (arg args 1)"
proof -
  from assms have m: "(case execAsync w ''docker --version'' of Completed out err \<Rightarrow> True | Rejected message \<Rightarrow> False)"
    and l: "truthy (arg args 1)" by simp_all
  from m show "\<exists>out err. execAsync w ''docker --version'' = Completed out err"
    by (cases "execAsync w ''docker --version''") simp_all
  from l show "truthy (arg args 1)" .
qed

lemma code_ungated:
  assumes "\<not> mutating w (CodeExecution op args)"
  shows "confirmations (snd (CodeExecutionTool_execute w sb op args)) = []"
proof -
  consider (run) "op = ''run''" | (test) "op = ''test''" | (other) "op \<noteq> ''run''" "op \<noteq> ''test''"
    by blast
  then show ?thesis
  proof cases
    case run
    with assms have "(case execAsync w ''docker --version'' of Completed out err \<Rightarrow> False | Rejected message \<Rightarrow> True)
           \<or> map_option Text (arg args 0) = None \<or> map_option Text (arg args 0) = Some (Text []) \<or> \<not> truthy (arg args 1)"
      using map_option_Text_truthy[of "arg args 0"]
      by (cases "execAsync w ''docker --version''") auto
    then show ?thesis using run
      by (simp add: CodeExecutionTool_execute_def runCode_unasked)
  next
    case test
    with assms have "(case execAsync w ''docker --version'' of Completed out err \<Rightarrow> False | Rejected message \<Rightarrow> True)
           \<or> testInput (arg args 0) (arg args 1) = None \<or> testInput (arg args 0) (arg args 1) = Some (Text [])
           \<or> \<not> truthy (arg args 1)"
      using testInput_truthy[of "arg args 0" "arg args 1"]
      by (cases "execAsync w ''docker --version''") auto
    then show ?thesis using test
      by (simp add: CodeExecutionTool_execute_def CodeExecutionTool_testCode_def runCode_unasked)
  next
    case other
    then show ?thesis by (simp add: CodeExecutionTool_execute_def confirmations_def)
  qed
qed

lemma faultsReported_nil [simp]: "faultsReported w sb (r, [])"
  by (simp add: faultsReported_def)

lemma faultsReported_failure: "\<not> success r \<Longrightarrow> present (error r) \<Longrightarrow> faultsReported w sb (r, t)"
  by (simp add: faultsReported_def)

lemma faultsReported_Cons:
  "faultsReported w sb r \<Longrightarrow> \<not> faulted w sb e \<or> e = Exec ''which speedtest-cli'' \<or> isCleanup e
     \<Longrightarrow> faultsReported w sb (fst r, e # snd r)"
  by (auto simp: faultsReported_def)

lemma faultsReported_append:
  "faultsReported w sb r \<Longrightarrow> \<forall>e \<in> set t. isCleanup e \<Longrightarrow> faultsReported w sb (fst r, snd r @ t)"
  by (auto simp: faultsReported_def)

lemma faultsReported_describe: "faultsReported w sb r \<Longrightarrow> faultsReported w sb (describeService n r)"
  unfolding faultsReported_def describeService_def Let_def by (cases "success (fst r)") auto

lemma systemctl_runCommand_fr: "faultsReported w sb (SystemctlTool_runCommand w c rc)"
  by (simp add: SystemctlTool_runCommand_def Let_def faultsReported_def split: ExecOutcome.splits)

lemma apt_runCommand_fr: "faultsReported w sb (AptTool_runCommand w c rc)"
  by (simp add: AptTool_runCommand_def Let_def faultsReported_def split: ExecOutcome.splits)

lemma network_runCommand_fr: "faultsReported w sb (NetworkTool_runCommand w c)"
  by (simp add: NetworkTool_runCommand_def Let_def faultsReported_def split: ExecOutcome.splits)

lemma disk_runCommand_fr: "faultsReported w sb (DiskTool_runCommand w c)"
  by (simp add: DiskTool_runCommand_def Let_def faultsReported_def split: ExecOutcome.splits)

lemma speedTest_fr: "faultsReported w sb (NetworkTool_speedTest w)"
proof (cases "execAsync w ''which speedtest-cli''")
  case (Completed out err)
  then show ?thesis
    using faultsReported_Cons[OF network_runCommand_fr[of w sb "''speedtest-cli --simple''"], of "Exec ''which speedtest-cli''"]
    by (simp add: NetworkTool_speedTest_def Let_def)
next
  case (Rejected message)
  then show ?thesis by (simp add: NetworkTool_speedTest_def faultsReported_def)
qed

lemma runDocker_fr: "faultsReported w sb (runDocker w cfg lang name t i)"
  by (simp add: runDocker_def Let_def faultsReported_def split: ExecOutcome.splits)

lemma writeInput_fr: "faultsReported w sb (writeInput w sb cfg lang name t i)"
proof (cases "truthy i")
  case False
  then show ?thesis by (simp add: writeInput_def runDocker_fr)
next
  case True
  show ?thesis
  proof (cases "writeFile sb (join t ''input.txt'') (Text (interp i))")
    case None
    then show ?thesis
      using True faultsReported_Cons[OF runDocker_fr[of w sb cfg lang name t "Some (join t ''input.txt'')"],
              of "WriteFile (join t ''input.txt'') (Text (interp i))"]
      by (simp add: writeInput_def Let_def)
  next
    case (Some message)
    then show ?thesis using True by (simp add: writeInput_def Let_def faultsReported_failure)
  qed
qed

lemma writeCode_fr: "faultsReported w sb (writeCode w sb code lang name t i)"
proof (cases "getLanguageConfig lang")
  case None
  then show ?thesis by (simp add: writeCode_def)
next
  case (Some cfg)
  show ?thesis
  proof (cases "writeFile sb (join t (config_filename cfg)) code")
    case None
    then show ?thesis
      using Some faultsReported_Cons[OF writeInput_fr[of w sb cfg lang name t i],
              of "WriteFile (join t (config_filename cfg)) code"]
      by (simp add: writeCode_def Let_def)
  next
    case (Some message)
    then show ?thesis using \<open>getLanguageConfig lang = Some cfg\<close>
      by (simp add: writeCode_def Let_def faultsReported_failure)
  qed
qed

lemma cleanup_isCleanup: "\<forall>e \<in> set (cleanup name t). isCleanup e"
  by (simp add: cleanup_def)

lemma runInContainer_fr: "faultsReported w sb (runInContainer w sb code lang i)"
proof (cases "mkdtemp sb (join (tmpdir sb) ''grok-code-exec-'')")
  case (Inl message)
  then show ?thesis by (simp add: runInContainer_def Let_def faultsReported_failure)
next
  case (Inr tempDir)
  let ?name = "''grok-exec-'' @ containerSuffix sb"
  let ?r = "writeCode w sb code lang ?name tempDir i"
  have "faultsReported w sb (fst ?r, snd ?r @ cleanup ?name tempDir)"
    by (rule faultsReported_append[OF writeCode_fr cleanup_isCleanup])
  from faultsReported_Cons[OF this, of "Mkdtemp (join (tmpdir sb) ''grok-code-exec-'')"] Inr
  show ?thesis by (simp add: runInContainer_def Let_def)
qed

lemma faultsReported_skip:
  "\<not> faulted w sb e \<Longrightarrow> faultsReported w sb (r, e # t) = faultsReported w sb (r, t)"
  by (auto simp: faultsReported_def)

lemma runCode_fr: "faultsReported w sb (CodeExecutionTool_runCode w sb code lang i)"
proof (cases "execAsync w ''docker --version''")
  case (Rejected message)
  then show ?thesis by (simp add: CodeExecutionTool_runCode_def faultsReported_failure)
next
  case (Completed out err)
  show ?thesis
  proof (cases "code = None \<or> code = Some (Text []) \<or> \<not> truthy lang")
    case True
    then show ?thesis by (auto simp: CodeExecutionTool_runCode_def)
  next
    case False
    then show ?thesis
      using Completed runInContainer_fr[of w sb "the code" "the lang" i]
      by (simp add: CodeExecutionTool_runCode_def Let_def faultsReported_failure faultsReported_skip)
  qed
qed

lemma systemctl_fr: "faultsReported w sb (SystemctlTool_execute w op name)"
  by (simp add: SystemctlTool_execute_def SystemctlTool_start_def SystemctlTool_stop_def
  SystemctlTool_restart_def SystemctlTool_status_def SystemctlTool_enable_def SystemctlTool_disable_def
  SystemctlTool_isActive_def SystemctlTool_isEnabled_def Let_def systemctl_runCommand_fr faultsReported_describe)

lemma apt_fr: "faultsReported w sb (AptTool_execute w op args)"
  by (simp add: apt_defs apt_runCommand_fr)

lemma network_fr: "faultsReported w sb (NetworkTool_execute w op args)"
  by (simp add: NetworkTool_execute_def NetworkTool_ping_def NetworkTool_traceroute_def
  NetworkTool_interfaces_def NetworkTool_connections_def NetworkTool_dnsLookup_def network_runCommand_fr speedTest_fr)

lemma disk_fr: "faultsReported w sb (DiskTool_execute w op args)"
  by (simp add: DiskTool_execute_def DiskTool_usage_def DiskTool_free_def DiskTool_diskUsage_def
  DiskTool_findLargeFiles_def disk_runCommand_fr DiskTool_cleanupSuggestions_def)

lemma code_fr: "faultsReported w sb (CodeExecutionTool_execute w sb op args)"
  by (simp add: CodeExecutionTool_execute_def CodeExecutionTool_testCode_def runCode_fr)

lemma flagsAfter_unasked: "confirmations trace = [] \<Longrightarrow> flagsAfter w trace fl = fl"
proof (induction trace arbitrary: fl)
  case Nil
  then show ?case by simp
next
  case (Cons e trace)
  then show ?case by (cases e) (simp_all add: confirmations_def)
qed

lemma confirmations_append: "confirmations (xs @ ys) = confirmations xs @ confirmations ys"
  by (simp add: confirmations_def)

lemma runTools_flagged:
  assumes "bashCommands (getSessionFlags w) \<or> allOperations (getSessionFlags w)"
  shows "runTools w sb calls
         = (map (\<lambda>call. fst (invoke (approving w) sb call)) calls,
            concat (map (\<lambda>call. commands (snd (invoke (approving w) sb call))) calls),
            getSessionFlags w)"
proof (induction calls)
  case Nil
  then show ?case by simp
next
  case (Cons call calls)
  have e: "invoke w sb call = withoutPrompts (invoke (approving w) sb call)"
    by (rule invoke_flagged[OF assms])
  have c: "confirmations (snd (invoke w sb call)) = []"
    using e confirmations_withoutPrompts[of "invoke (approving w) sb call"] by simp
  have "flagsAfter w (snd (invoke w sb call)) (getSessionFlags w) = getSessionFlags w"
    using c by (rule flagsAfter_unasked)
  then have "w\<lparr>getSessionFlags := flagsAfter w (snd (invoke w sb call)) (getSessionFlags w)\<rparr> = w"
    by simp
  then show ?case using Cons.IH e by (simp add: Let_def withoutPrompts_def)
qed

lemma confirmations_commands [simp]: "confirmations (commands t) = []"
  by (simp add: confirmations_def commands_def)

lemma confirmations_concat_commands: "confirmations (concat (map (\<lambda>c. commands (f c)) cs)) = []"
  by (induction cs) (simp_all add: confirmations_append, simp add: confirmations_def)

lemma approving_flags [simp]: "approving (w\<lparr>getSessionFlags := fl\<rparr>) = approving w"
  by (simp add: approving_def)

lemma headless_run:
  "runTools (w\<lparr>getSessionFlags := setSessionFlag ''allOperations'' True (getSessionFlags w)\<rparr>) sb calls
   = (map (\<lambda>call. fst (invoke (approving w) sb call)) calls,
      concat (map (\<lambda>call. commands (snd (invoke (approving w) sb call))) calls),
      (getSessionFlags w)\<lparr>allOperations := True\<rparr>)"
proof -
  let ?w = "w\<lparr>getSessionFlags := setSessionFlag ''allOperations'' True (getSessionFlags w)\<rparr>"
  have "bashCommands (getSessionFlags ?w) \<or> allOperations (getSessionFlags ?w)"
    by (simp add: setSessionFlag_def)
  from runTools_flagged[OF this, of sb calls] show ?thesis
    by (simp add: setSessionFlag_def)
qed

section \<open>Facts about the conversation history\<close>

lemma history_setHistory [simp]: "history (setHistory f chat) = f (history chat)"
  by (simp add: setHistory_def)

lemma history_addEntry [simp]: "history (addEntry e chat) = history chat @ [e]"
  by (simp add: addEntry_def)

lemma history_updateLastEntry:
  "history (updateLastEntry u chat)
   = (if history chat = [] then [] else butlast (history chat) @ [u (last (history chat))])"
proof (cases "history chat" rule: rev_cases)
  case Nil
  then show ?thesis by (simp add: updateLastEntry_def)
next
  case (snoc ys y)
  then show ?thesis by (simp add: updateLastEntry_def nth_append)
qed

lemma history_foldl_addEntry:
  "history (foldl (\<lambda>chat c. addEntry (f c) chat) chat cs) = history chat @ map f cs"
  by (induction cs arbitrary: chat) simp_all


lemma onContent_history:
  "history (fst (onContent now chunk s)) = history (fst s)
   \<or> (\<exists>e. history (fst (onContent now chunk s)) = history (fst s) @ [e])
   \<or> (\<exists>e. history (fst s) \<noteq> [] \<and> streaming (last (history (fst s)))
           \<and> history (fst (onContent now chunk s)) = butlast (history (fst s)) @ [e])"
proof (cases "truthy (chunk_content chunk)")
  case False
  then show ?thesis by (simp add: onContent_def)
next
  case True
  show ?thesis
  proof (cases "snd s")
    case None
    with True show ?thesis by (simp add: onContent_def Let_def)
  next
    case (Some streamingEntry)
    show ?thesis
    proof (cases "history (fst s) \<noteq> [] \<and> streaming (last (history (fst s)))")
      case True
      with \<open>truthy (chunk_content chunk)\<close> Some show ?thesis
        by (simp add: onContent_def history_updateLastEntry)
    next
      case False
      with \<open>truthy (chunk_content chunk)\<close> Some
      have "history (fst (onContent now chunk s)) = history (fst s)"
        by (auto simp add: onContent_def history_updateLastEntry)
      then show ?thesis by simp
    qed
  qed
qed

lemma nth_butlast_snoc: "i < length xs \<Longrightarrow> (butlast xs @ [e]) ! i \<noteq> xs ! i \<Longrightarrow> i = length xs - 1"
  by (cases xs rule: rev_cases) (auto simp: nth_append split: if_splits)

lemma step_frame:
  assumes "i < length (history (fst s))"
      and "history (fst (processChunk s (now, chunk))) ! i \<noteq> history (fst s) ! i"
  shows "touchable chunk (history (fst s) ! i)"
proof (cases "chunk_type chunk")
  case Chunk_content
  from onContent_history[of now chunk s] assms Chunk_content
  have "history (fst s) \<noteq> [] \<and> streaming (last (history (fst s))) \<and> i = length (history (fst s)) - 1"
    by (auto simp: processChunk_def nth_append dest: nth_butlast_snoc)
  then show ?thesis by (auto simp add: touchable_def last_conv_nth)
next
  case Chunk_token_count
  with assms show ?thesis by (simp add: processChunk_def onTokenCount_def split: option.splits)
next
  case Chunk_tool_calls
  with assms show ?thesis
    by (auto simp: processChunk_def onToolCalls_def Let_def history_foldl_addEntry nth_append touchable_def
             split: option.splits if_splits)
next
  case Chunk_tool_result
  with assms show ?thesis
    by (auto simp: processChunk_def onToolResult_def touchable_def split: option.splits if_splits)
next
  case Chunk_done
  with assms show ?thesis
    by (auto simp: processChunk_def onDone_def touchable_def split: option.splits if_splits)
qed

lemma step_length: "length (history (fst s)) \<le> length (history (fst (processChunk s (now, chunk))))"
proof (cases "chunk_type chunk")
  case Chunk_content
  from onContent_history[of now chunk s] Chunk_content show ?thesis
    by (auto simp: processChunk_def)
next
  case Chunk_token_count
  then show ?thesis by (simp add: processChunk_def onTokenCount_def split: option.splits)
next
  case Chunk_tool_calls
  then show ?thesis
    by (simp add: processChunk_def onToolCalls_def Let_def history_foldl_addEntry split: option.splits)
next
  case Chunk_tool_result
  then show ?thesis by (simp add: processChunk_def onToolResult_def split: option.splits)
next
  case Chunk_done
  then show ?thesis by (simp add: processChunk_def onDone_def)
qed

lemma step_content:
  assumes "chunk_type chunk = Chunk_content"
  shows "take (length (history (fst s)) - 1) (history (fst (processChunk s (now, chunk))))
         = butlast (history (fst s))"
  using onContent_history[of now chunk s] assms
  by (auto simp: processChunk_def butlast_conv_take)

lemma touchable_not_settled: "touchable chunk entry \<Longrightarrow> \<not> settled entry"
  by (auto simp: touchable_def settled_def sameCall_def split: option.splits)

lemma run_frame:
  "length (history (fst s)) \<le> length (history (fst (processChunks s chunks)))
   \<and> (\<forall>i < length (history (fst s)). settled (history (fst s) ! i)
          \<longrightarrow> history (fst (processChunks s chunks)) ! i = history (fst s) ! i)"
proof (induction chunks arbitrary: s)
  case Nil
  then show ?case by (simp add: processChunks_def)
next
  case (Cons timed chunks)
  obtain now chunk where t: "timed = (now, chunk)" by (cases timed)
  let ?s1 = "processChunk s (now, chunk)"
  have l: "length (history (fst s)) \<le> length (history (fst ?s1))" by (rule step_length)
  have keep: "history (fst ?s1) ! i = history (fst s) ! i"
    if "i < length (history (fst s))" "settled (history (fst s) ! i)" for i
    using step_frame[of i s now chunk] touchable_not_settled that by blast
  from Cons.IH[of ?s1] l keep t show ?case
    by (auto simp: processChunks_def)
qed

lemma deltas_Nil [simp]: "deltas [] = []"
  by (simp add: deltas_def)

lemma deltas_Cons:
  "deltas ((now, chunk) # chunks) = (if isDelta chunk then the (chunk_content chunk) # deltas chunks else deltas chunks)"
  by (simp add: deltas_def)

lemma processChunks_Cons: "processChunks s (timed # chunks) = processChunks (processChunk s timed) chunks"
  by (simp add: processChunks_def)

lemma processChunks_Nil [simp]: "processChunks s [] = s"
  by (simp add: processChunks_def)

lemma step_not_delta_delta_only:
  assumes "chunk_type chunk = Chunk_content \<or> chunk_type chunk = Chunk_token_count" and "\<not> isDelta chunk"
  shows "history (fst (processChunk s (now, chunk))) = history (fst s)"
    and "snd (processChunk s (now, chunk)) = snd s"
  using assms
  by (auto simp: processChunk_def isDelta_def onContent_def onTokenCount_def split: option.splits)

lemma step_delta_open:
  assumes "isDelta chunk" and "snd s = Some se" and "history (fst s) = h @ [e]" and "streaming e"
  shows "history (fst (processChunk s (now, chunk)))
           = h @ [e\<lparr>entry_content := entry_content e @ the (chunk_content chunk)\<rparr>]"
    and "snd (processChunk s (now, chunk)) = Some se"
  using assms
  by (simp_all add: processChunk_def isDelta_def onContent_def history_updateLastEntry)

lemma step_delta_first:
  assumes "isDelta chunk" and "snd s = None"
  shows "history (fst (processChunk s (now, chunk)))
           = history (fst s) @ [(plainEntry Type_assistant (the (chunk_content chunk)) now)\<lparr>entry_isStreaming := Some True\<rparr>]"
    and "snd (processChunk s (now, chunk)) \<noteq> None"
  using assms
  by (simp_all add: processChunk_def isDelta_def onContent_def Let_def)

lemma streaming_content [simp]: "streaming (e\<lparr>entry_content := c\<rparr>) = streaming e"
  by (simp add: streaming_def)

lemma run_open:
  assumes "deltasOnly chunks" and "snd s = Some se" and "history (fst s) = h @ [e]" and "streaming e"
  shows "history (fst (processChunks s chunks))
           = h @ [e\<lparr>entry_content := entry_content e @ concat (deltas chunks)\<rparr>]"
  using assms
proof (induction chunks arbitrary: s e)
  case Nil
  then show ?case by simp
next
  case (Cons timed chunks)
  obtain now chunk where t: "timed = (now, chunk)" by (cases timed)
  from Cons.prems(1) t have ty: "chunk_type chunk = Chunk_content \<or> chunk_type chunk = Chunk_token_count"
    and rest: "deltasOnly chunks" by (simp_all add: deltasOnly_def)
  show ?case
  proof (cases "isDelta chunk")
    case True
    let ?e = "e\<lparr>entry_content := entry_content e @ the (chunk_content chunk)\<rparr>"
    from step_delta_open[OF True Cons.prems(2,3,4), of now]
    have h1: "history (fst (processChunk s (now, chunk))) = h @ [?e]"
      and s1: "snd (processChunk s (now, chunk)) = Some se" by simp_all
    have "streaming ?e" using Cons.prems(4) by simp
    from Cons.IH[OF rest s1 h1 this] True t show ?thesis
      by (simp add: processChunks_Cons deltas_Cons)
  next
    case False
    from step_not_delta_delta_only[OF ty False, of s now] Cons.prems
    have h1: "history (fst (processChunk s (now, chunk))) = h @ [e]"
      and s1: "snd (processChunk s (now, chunk)) = Some se" by simp_all
    from Cons.IH[OF rest s1 h1 Cons.prems(4)] False t show ?thesis
      by (simp add: processChunks_Cons deltas_Cons)
  qed
qed

lemma run_closed:
  assumes "deltasOnly chunks" and "snd s = None"
  shows "if deltas chunks = [] then history (fst (processChunks s chunks)) = history (fst s)
         else \<exists>e. history (fst (processChunks s chunks)) = history (fst s) @ [e]
                \<and> entry_type e = Type_assistant \<and> streaming e
                \<and> entry_content e = concat (deltas chunks)"
  using assms
proof (induction chunks arbitrary: s)
  case Nil
  then show ?case by simp
next
  case (Cons timed chunks)
  obtain now chunk where t: "timed = (now, chunk)" by (cases timed)
  from Cons.prems(1) t have ty: "chunk_type chunk = Chunk_content \<or> chunk_type chunk = Chunk_token_count"
    and rest: "deltasOnly chunks" by (simp_all add: deltasOnly_def)
  show ?case
  proof (cases "isDelta chunk")
    case True
    let ?e = "(plainEntry Type_assistant (the (chunk_content chunk)) now)\<lparr>entry_isStreaming := Some True\<rparr>"
    from step_delta_first[OF True Cons.prems(2), of now]
    have h1: "history (fst (processChunk s (now, chunk))) = history (fst s) @ [?e]"
      and "snd (processChunk s (now, chunk)) \<noteq> None" by simp_all
    then obtain se where s1: "snd (processChunk s (now, chunk)) = Some se" by blast
    have st: "streaming ?e" by (simp add: streaming_def)
    from run_open[OF rest s1 h1 st]
    have "history (fst (processChunks s (timed # chunks)))
            = history (fst s) @ [?e\<lparr>entry_content := entry_content ?e @ concat (deltas chunks)\<rparr>]"
      using t by (simp add: processChunks_Cons)
    moreover have "entry_type (?e\<lparr>entry_content := entry_content ?e @ concat (deltas chunks)\<rparr>) = Type_assistant"
      by (simp add: plainEntry_def)
    moreover have "streaming (?e\<lparr>entry_content := entry_content ?e @ concat (deltas chunks)\<rparr>)"
      using st by simp
    moreover have "entry_content (?e\<lparr>entry_content := entry_content ?e @ concat (deltas chunks)\<rparr>)
                     = concat (deltas (timed # chunks))"
      using True t by (simp add: deltas_Cons plainEntry_def)
    moreover have "deltas (timed # chunks) \<noteq> []" using True t by (simp add: deltas_Cons)
    ultimately show ?thesis by simp
  next
    case False
    from step_not_delta_delta_only[OF ty False, of s now] Cons.prems
    have h1: "history (fst (processChunk s (now, chunk))) = history (fst s)"
      and s1: "snd (processChunk s (now, chunk)) = None" by simp_all
    from Cons.IH[OF rest s1, unfolded h1] False t show ?thesis
      by (simp add: processChunks_Cons deltas_Cons)
  qed
qed

lemma assistants_map:
  assumes "\<And>e. (entry_type (g e) = Type_assistant) = (entry_type e = Type_assistant)"
  shows "length (assistants (setHistory (map g) chat)) = length (assistants chat)"
proof -
  have "length (filter (\<lambda>e. entry_type e = Type_assistant) (map g h))
         = length (filter (\<lambda>e. entry_type e = Type_assistant) h)" for h
    using assms by (induction h) simp_all
  then show ?thesis by (simp only: assistants_def history_setHistory)
qed

lemma assistants_foldl_calls:
  "length (assistants (foldl (\<lambda>chat toolCall.
              addEntry ((plainEntry Type_tool_call c now)\<lparr>entry_toolCall := Some toolCall\<rparr>) chat) chat calls))
   = length (assistants chat)"
  by (induction calls arbitrary: chat) (simp_all add: assistants_def plainEntry_def)

lemma assistants_isStreaming [simp]: "assistants (chat\<lparr>isStreaming := b\<rparr>) = assistants chat"
  by (simp add: assistants_def)

lemma assistants_tokenCount [simp]: "assistants (chat\<lparr>tokenCount := n\<rparr>) = assistants chat"
  by (simp add: assistants_def)

lemma step_no_delta_assistants:
  assumes "\<not> isDelta chunk"
  shows "length (assistants (fst (processChunk s (now, chunk)))) = length (assistants (fst s))"
proof (cases "chunk_type chunk")
  case Chunk_content
  with assms show ?thesis by (simp add: processChunk_def isDelta_def onContent_def)
next
  case Chunk_token_count
  then show ?thesis by (simp add: processChunk_def onTokenCount_def split: option.splits)
next
  case Chunk_tool_calls
  show ?thesis
  proof (cases "chunk_toolCalls chunk")
    case None
    with Chunk_tool_calls show ?thesis by (simp add: processChunk_def onToolCalls_def)
  next
    case (Some calls)
    have "length (assistants (setHistory
                (map (\<lambda>entry. if streaming entry
                               then entry\<lparr>entry_isStreaming := Some False, entry_toolCalls := Some calls\<rparr>
                               else entry))
                (fst s))) = length (assistants (fst s))"
      by (rule assistants_map) simp
    with Some Chunk_tool_calls show ?thesis
      by (simp add: processChunk_def onToolCalls_def Let_def assistants_foldl_calls)
  qed
next
  case Chunk_tool_result
  show ?thesis
  proof (cases "chunk_toolCall chunk")
    case None
    with Chunk_tool_result show ?thesis by (simp add: processChunk_def onToolResult_def)
  next
    case (Some toolCall)
    show ?thesis
    proof (cases "chunk_toolResult chunk")
      case None
      with Some Chunk_tool_result show ?thesis by (simp add: processChunk_def onToolResult_def)
    next
      case (Some r)
      have "length (assistants (setHistory
            (map (\<lambda>entry. if streaming entry then entry\<lparr>entry_isStreaming := Some False\<rparr>
                           else if sameCall entry toolCall
                           then entry\<lparr>entry_type := Type_tool_result, entry_content := resultContent r,
                                      entry_toolResult := Some r\<rparr>
                           else entry))
            (fst s))) = length (assistants (fst s))"
        by (rule assistants_map) (simp add: sameCall_def)
      with Some \<open>chunk_toolCall chunk = Some toolCall\<close> Chunk_tool_result show ?thesis
        by (simp add: processChunk_def onToolResult_def)
    qed
  qed
next
  case Chunk_done
  have "length (assistants (setHistory
            (map (\<lambda>entry. if streaming entry then entry\<lparr>entry_isStreaming := Some False\<rparr> else entry))
            (fst s))) = length (assistants (fst s))"
    by (rule assistants_map) simp
  with Chunk_done show ?thesis
    by (simp add: processChunk_def onDone_def)
qed

lemma step_closes: "closes chunk \<Longrightarrow> snd (processChunk s (now, chunk)) = None"
  by (auto simp: closes_def processChunk_def onToolCalls_def onToolResult_def Let_def)

lemma step_closes_all:
  "closes chunk \<Longrightarrow> list_all (\<lambda>entry. \<not> streaming entry) (history (fst (processChunk s (now, chunk))))"
proof -
  have calls: "list_all (\<lambda>entry. \<not> streaming entry)
                 (history (foldl (\<lambda>chat toolCall.
                     addEntry ((plainEntry Type_tool_call ''Executing...'' now)\<lparr>entry_toolCall := Some toolCall\<rparr>) chat)
                   chat cs))"
    if "list_all (\<lambda>entry. \<not> streaming entry) (history chat)" for chat cs
    using that
    by (induction cs arbitrary: chat) (simp_all add: addEntry_def setHistory_def streaming_def plainEntry_def)
  assume "closes chunk"
  then consider (a) cs where "chunk_type chunk = Chunk_tool_calls" "chunk_toolCalls chunk = Some cs"
    | (b) c r where "chunk_type chunk = Chunk_tool_result" "chunk_toolCall chunk = Some c" "chunk_toolResult chunk = Some r"
    unfolding closes_def by blast
  then show ?thesis
  proof cases
    case a
    have "list_all (\<lambda>entry. \<not> streaming entry)
            (history (setHistory (map (\<lambda>entry. if streaming entry
                               then entry\<lparr>entry_isStreaming := Some False, entry_toolCalls := Some cs\<rparr>
                               else entry)) (fst s)))"
      by (auto simp: setHistory_def list_all_iff streaming_def)
    from calls[OF this] a show ?thesis
      by (simp add: processChunk_def onToolCalls_def Let_def)
  next
    case b
    then show ?thesis
      by (auto simp: processChunk_def onToolResult_def Let_def setHistory_def list_all_iff streaming_def)
  qed
qed

lemma step_withoutPayload: "withoutPayload chunk \<Longrightarrow> processChunk s (now, chunk) = s"
  by (auto simp: withoutPayload_def processChunk_def onToolCalls_def onToolResult_def Let_def
        split: option.splits)

lemma step_first_delta:
  "c \<noteq> [] \<Longrightarrow> snd s = None \<Longrightarrow>
   history (fst (processChunk s (now, contentChunk c)))
     = history (fst s) @ [(plainEntry Type_assistant c now)\<lparr>entry_isStreaming := Some True\<rparr>]"
  by (simp add: processChunk_def onContent_def contentChunk_def chunkOf_def truthy_def Let_def
        addEntry_def setHistory_def)

lemma run_no_delta_assistants:
  assumes "deltas chunks = []"
  shows "length (assistants (fst (processChunks s chunks))) = length (assistants (fst s))"
  using assms
proof (induction chunks arbitrary: s)
  case Nil
  then show ?case by simp
next
  case (Cons timed chunks)
  obtain now chunk where t: "timed = (now, chunk)" by (cases timed)
  from Cons.prems t have n: "\<not> isDelta chunk" and r: "deltas chunks = []"
    by (simp_all add: deltas_Cons split: if_splits)
  from Cons.IH[OF r, of "processChunk s (now, chunk)"] step_no_delta_assistants[OF n, of s now] t
  show ?case by (simp add: processChunks_Cons)
qed

lemma turn_frame:
  "length (history chat) < length (history (processUserMessage userInput now chunks thrown chat))
   \<and> (\<forall>i < length (history chat). settled (history chat ! i)
          \<longrightarrow> history (processUserMessage userInput now chunks thrown chat) ! i = history chat ! i)"
proof -
  let ?started = "(addEntry (plainEntry Type_user userInput now) chat)\<lparr>isProcessing := True, isStreaming := True\<rparr>"
  let ?streamed = "fst (processChunks (?started, None) chunks)"
  have h0: "history ?started = history chat @ [plainEntry Type_user userInput now]" by simp
  from run_frame[of "(?started, None)" chunks]
  have l: "length (history chat) < length (history ?streamed)"
    and k: "\<forall>i < length (history ?started). settled (history ?started ! i)
               \<longrightarrow> history ?streamed ! i = history ?started ! i"
    by (simp_all only: fst_conv h0 length_append, simp_all)
  have k': "history ?streamed ! i = history chat ! i"
    if "i < length (history chat)" "settled (history chat ! i)" for i
    using k that by (simp add: nth_append)
  show ?thesis
  proof (cases thrown)
    case None
    with l k' show ?thesis by (simp add: processUserMessage_def Let_def)
  next
    case (Some e)
    obtain failedAt message where "e = (failedAt, message)" by (cases e)
    with Some l k' show ?thesis by (simp add: processUserMessage_def Let_def nth_append)
  qed
qed

lemma twoCalls_reached: "processChunks (emptyChat, None) [(1, toolCallsChunk [callA, callB])] = twoCalls"
  by (simp add: twoCalls_def processChunks_def processChunk_def onToolCalls_def emptyChat_def
        toolCallsChunk_def chunkOf_def Let_def setHistory_def addEntry_def)

section \<open>Facts about names, the loop and the gate\<close>

lemma catalog_same_tool: "catalogName s1 t = catalogName s2 t \<Longrightarrow> s1 = s2"
  by (simp add: catalogName_def)

lemma doubled_append: "doubled (s @ CHR ''_'' # CHR ''_'' # r)"
proof (induction s)
  case Nil
  show ?case by simp
next
  case (Cons a s)
  then show ?case by (cases s) simp_all
qed

lemma doubled_catalogName: "doubled (catalogName s t)"
  using doubled_append[of s t] by (simp add: catalogName_def)

lemma separable_longer:
  assumes "separable (s @ us)" and "us @ ''__'' @ t1 = ''__'' @ t2"
  shows "us = []"
proof (cases us)
  case Nil
  then show ?thesis .
next
  case (Cons a rest)
  with assms(2) have a: "a = CHR ''_''" by simp
  show ?thesis
  proof (cases rest)
    case Nil
    with Cons a assms(1) show ?thesis by (simp add: separable_def)
  next
    case (Cons b more)
    with \<open>us = a # rest\<close> assms(2) have "b = CHR ''_''" by simp
    with Cons \<open>us = a # rest\<close> a have "us = CHR ''_'' # CHR ''_'' # more" by simp
    with doubled_append[of s more] assms(1) show ?thesis by (simp add: separable_def)
  qed
qed

lemma catalog_unique:
  assumes "separable s1" "separable s2" "catalogName s1 t1 = catalogName s2 t2"
  shows "s1 = s2 \<and> t1 = t2"
proof -
  from assms(3) have "s1 @ (''__'' @ t1) = s2 @ (''__'' @ t2)"
    by (simp add: catalogName_def)
  then obtain us where
    "s1 = s2 @ us \<and> us @ (''__'' @ t1) = ''__'' @ t2 \<or> s1 @ us = s2 \<and> ''__'' @ t1 = us @ (''__'' @ t2)"
    unfolding append_eq_append_conv2 by blast
  then show ?thesis
  proof (elim disjE conjE)
    assume e: "s1 = s2 @ us" "us @ (''__'' @ t1) = ''__'' @ t2"
    from separable_longer[of s2 us t1 t2] assms(1) e have "us = []" by simp
    with e show ?thesis by simp
  next
    assume e: "s1 @ us = s2" "''__'' @ t1 = us @ (''__'' @ t2)"
    from separable_longer[of s1 us t2 t1] assms(2) e have "us = []" by simp
    with e show ?thesis by simp
  qed
qed

lemma builtin_not_doubled: "n \<in> set builtinNames \<Longrightarrow> \<not> doubled n"
  by (auto simp: builtinNames_def)

lemma catalog_not_builtin: "catalogName s t \<notin> set builtinNames"
  using builtin_not_doubled[of "catalogName s t"] doubled_catalogName[of s t] by blast

lemma toolRound_prefix: "prefix entries (snd (toolRound a rounds calls entries))"
proof (induction calls arbitrary: entries)
  case Nil
  then show ?case by simp
next
  case (Cons call calls)
  show ?case
  proof (cases "abortBeforeTool a rounds call")
    case True
    then show ?thesis by simp
  next
    case False
    let ?e = "(plainEntry Type_tool_result (resultContent (dispatch a call)) (clock a rounds))
                \<lparr>entry_toolCall := Some call, entry_toolResult := Some (dispatch a call)\<rparr>"
    have "prefix (entries @ [?e]) (snd (toolRound a rounds calls (entries @ [?e])))"
      by (rule Cons.IH)
    then have "prefix entries (snd (toolRound a rounds calls (entries @ [?e])))"
      by (rule append_prefixD)
    with False show ?thesis by simp
  qed
qed

lemma toolRound_unaborted:
  "(\<And>c. \<not> abortBeforeTool a rounds c) \<Longrightarrow> \<not> fst (toolRound a rounds calls entries)"
  by (induction calls arbitrary: entries) simp_all

lemma isDouble_int: "\<bar>m\<bar> < (2::int) ^ 53 \<Longrightarrow> isDouble (of_int m)"
  unfolding isDouble_def by (rule exI[of _ m], rule exI[of _ 0]) simp

lemma valueOf_int: "\<bar>m\<bar> < (2::int) ^ 53 \<Longrightarrow> valueOf (double (of_int m)) = of_int m"
  by (simp add: double_inverse isDouble_int)

lemma valueOf_400: "valueOf (double 400) = 400"
  using valueOf_int[of 400] by simp

lemma valueOf_2: "valueOf (double 2) = 2"
  using valueOf_int[of 2] by simp

lemma maxToolRounds_default: "maxToolRounds None = Finite (double 400)"
  by (simp add: maxToolRounds_def truthyNumber_def valueOf_400)

lemma maxToolRounds_given:
  "maxToolRounds (Some n) = (if truthyNumber n then n else Finite (double 400))"
  by (simp add: maxToolRounds_def)

lemma toolRounds_append: "toolRounds (xs @ ys) = toolRounds xs + toolRounds ys"
  by (simp add: toolRounds_def)

lemma toolRounds_toolRound: "toolRounds (snd (toolRound a rounds calls entries)) = toolRounds entries"
  by (induction calls arbitrary: entries) (simp_all add: toolRounds_def plainEntry_def)

lemma orchestrate_limit:
  "exceeds rounds maxRounds \<Longrightarrow> orchestrate (Suc fuel) maxRounds a rounds entries = Some (RoundLimit, entries)"
  by simp

lemma orchestrate_prefix:
  "orchestrate fuel maxRounds a rounds entries = Some (out, es) \<Longrightarrow> prefix entries es"
proof (induction fuel arbitrary: rounds entries)
  case 0
  then show ?case by simp
next
  case (Suc fuel)
  show ?case
  proof (cases "exceeds rounds maxRounds \<or> abortBeforeModel a rounds")
    case True
    with Suc.prems show ?thesis by (auto split: if_splits)
  next
    case False
    show ?thesis
    proof (cases "model a entries")
      case (FinalText t)
      with False Suc.prems show ?thesis by auto
    next
      case (ModelError message)
      with False Suc.prems show ?thesis by auto
    next
      case (ToolCallsRequested t calls)
      let ?asked = "entries @ [(plainEntry Type_assistant t (clock a rounds))\<lparr>entry_toolCalls := Some calls\<rparr>]"
      let ?done = "toolRound a rounds calls ?asked"
      have p1: "prefix entries (snd ?done)"
        using toolRound_prefix[of ?asked a rounds calls] by (rule append_prefixD)
      show ?thesis
      proof (cases "fst ?done")
        case True
        with False ToolCallsRequested Suc.prems have "es = snd ?done" by (simp add: Let_def)
        with p1 show ?thesis by simp
      next
        case nd: False
        with False ToolCallsRequested Suc.prems
        have "orchestrate fuel maxRounds a (rounds + 1) (snd ?done) = Some (out, es)"
          by (simp add: Let_def)
        then have "prefix (snd ?done) es" by (rule Suc.IH)
        with p1 show ?thesis by (rule prefix_order.trans)
      qed
    qed
  qed
qed

lemma orchestrate_insists:
  assumes "insists a" and "orchestrate fuel maxRounds a rounds entries = Some (out, es)"
  shows "out = RoundLimit"
  using assms(2)
proof (induction fuel arbitrary: rounds entries)
  case 0
  then show ?case by simp
next
  case (Suc fuel)
  show ?case
  proof (cases "exceeds rounds maxRounds")
    case True
    with Suc.prems show ?thesis by simp
  next
    case False
    from assms(1) obtain t calls where m: "model a entries = ToolCallsRequested t calls"
      unfolding insists_def by blast
    from assms(1) have na: "\<not> abortBeforeModel a rounds" and nt: "\<And>c. \<not> abortBeforeTool a rounds c"
      unfolding insists_def by blast+
    let ?asked = "entries @ [(plainEntry Type_assistant t (clock a rounds))\<lparr>entry_toolCalls := Some calls\<rparr>]"
    let ?done = "toolRound a rounds calls ?asked"
    have nd: "\<not> fst ?done" using nt by (rule toolRound_unaborted)
    with False m na Suc.prems
    have "orchestrate fuel maxRounds a (rounds + 1) (snd ?done) = Some (out, es)"
      by (simp add: Let_def)
    then show ?thesis by (rule Suc.IH)
  qed
qed

lemma orchestrate_unbounded:
  assumes "insists a"
  shows "orchestrate fuel PosInfinity a rounds entries = None"
proof (induction fuel arbitrary: rounds entries)
  case 0
  show ?case by simp
next
  case (Suc fuel)
  from assms obtain t calls where m: "model a entries = ToolCallsRequested t calls"
    unfolding insists_def by blast
  from assms have na: "\<not> abortBeforeModel a rounds" and nt: "\<And>c. \<not> abortBeforeTool a rounds c"
    unfolding insists_def by blast+
  let ?asked = "entries @ [(plainEntry Type_assistant t (clock a rounds))\<lparr>entry_toolCalls := Some calls\<rparr>]"
  have nd: "\<not> fst (toolRound a rounds calls ?asked)" using nt by (rule toolRound_unaborted)
  with m na Suc.IH show ?case by (simp add: exceeds_def Let_def)
qed

lemma not_exceeds_floor: "\<not> exceeds rounds (Finite d) \<Longrightarrow> int rounds \<le> \<lfloor>valueOf d\<rfloor>"
  by (simp add: exceeds_def le_floor_iff)

lemma orchestrate_returns:
  "nat (\<lfloor>valueOf d\<rfloor> + 1 - int rounds) < fuel \<Longrightarrow> orchestrate fuel (Finite d) a rounds entries \<noteq> None"
proof (induction fuel arbitrary: rounds entries)
  case 0
  then show ?case by simp
next
  case (Suc fuel)
  show ?case
  proof (cases "exceeds rounds (Finite d)")
    case True
    then show ?thesis by simp
  next
    case False
    from not_exceeds_floor[OF False] Suc.prems
    have "nat (\<lfloor>valueOf d\<rfloor> + 1 - int (rounds + 1)) < fuel" by simp
    then have "orchestrate fuel (Finite d) a (rounds + 1) es \<noteq> None" for es
      by (rule Suc.IH)
    with False show ?thesis
      by (simp add: Let_def split: ModelReply.splits)
  qed
qed

lemma orchestrate_bound:
  "orchestrate fuel (Finite d) a rounds entries = Some (out, es)
   \<Longrightarrow> toolRounds es \<le> toolRounds entries + nat (\<lfloor>valueOf d\<rfloor> + 1 - int rounds)"
proof (induction fuel arbitrary: rounds entries)
  case 0
  then show ?case by simp
next
  case (Suc fuel)
  show ?case
  proof (cases "exceeds rounds (Finite d) \<or> abortBeforeModel a rounds")
    case True
    with Suc.prems have "es = entries" by (auto split: if_splits)
    then show ?thesis by simp
  next
    case False
    then have le: "int rounds \<le> \<lfloor>valueOf d\<rfloor>" using not_exceeds_floor by blast
    show ?thesis
    proof (cases "model a entries")
      case (FinalText t)
      with False Suc.prems have "es = entries @ [plainEntry Type_assistant t (clock a rounds)]" by auto
      then show ?thesis by (simp add: toolRounds_def plainEntry_def)
    next
      case (ModelError message)
      with False Suc.prems have "es = entries" by auto
      then show ?thesis by simp
    next
      case (ToolCallsRequested t calls)
      let ?asked = "entries @ [(plainEntry Type_assistant t (clock a rounds))\<lparr>entry_toolCalls := Some calls\<rparr>]"
      let ?done = "toolRound a rounds calls ?asked"
      have one: "toolRounds (snd ?done) = toolRounds entries + 1"
        by (simp add: toolRounds_toolRound) (simp add: toolRounds_def plainEntry_def)
      show ?thesis
      proof (cases "fst ?done")
        case True
        with False ToolCallsRequested Suc.prems have "es = snd ?done" by (simp add: Let_def)
        with one le show ?thesis by simp
      next
        case nd: False
        with False ToolCallsRequested Suc.prems
        have "orchestrate fuel (Finite d) a (rounds + 1) (snd ?done) = Some (out, es)"
          by (simp add: Let_def)
        then have "toolRounds es \<le> toolRounds (snd ?done) + nat (\<lfloor>valueOf d\<rfloor> + 1 - int (rounds + 1))"
          by (rule Suc.IH)
        with one le show ?thesis by simp
      qed
    qed
  qed
qed

lemma orchestrate_more_fuel:
  "orchestrate fuel maxRounds a rounds entries = Some r
   \<Longrightarrow> orchestrate (fuel + extra) maxRounds a rounds entries = Some r"
proof (induction fuel arbitrary: rounds entries)
  case 0
  then show ?case by simp
next
  case (Suc fuel)
  show ?case
  proof (cases "model a entries")
    case (FinalText t)
    with Suc.prems show ?thesis by (simp split: if_splits)
  next
    case (ModelError message)
    with Suc.prems show ?thesis by (simp split: if_splits)
  next
    case (ToolCallsRequested t calls)
    with Suc.prems Suc.IH show ?thesis by (simp add: Let_def split: if_splits)
  qed
qed

lemma resume_onePrompt:
  assumes "pending gate = None"
  shows "snd (resume ws gate) = map_option (\<lambda>p. fst (snd p)) (pending (fst (resume ws gate)))
         \<and> (pending (fst (resume ws gate)) = None \<longrightarrow> waiting (fst (resume ws gate)) = [])"
  using assms
proof (induction ws arbitrary: gate)
  case Nil
  then show ?case by simp
next
  case (Cons w ws)
  obtain caller opts category where w: "w = (caller, opts, category)" by (cases w)
  show ?case
  proof (cases "covered (flags gate) category")
    case True
    have "pending (gate\<lparr>resolved := resolved gate @ [(caller, Approved)]\<rparr>) = None"
      using Cons.prems by simp
    from Cons.IH[OF this] True w show ?thesis by simp
  next
    case False
    with w show ?thesis by simp
  qed
qed

lemma pending_decide [simp]: "pending (decide d gate) = None"
  by (simp add: decide_def split: option.splits prod.splits)

lemma options_shown: "options (shown emitted (p\<lparr>options := None\<rparr>)) = emitted"
  by (cases emitted) (simp_all add: shown_def handleConfirmationRequest_def)

lemma settle_onePrompt: "onePrompt (settle d s)" if "onePrompt s"
proof (cases "options (snd s) = None")
  case True
  with that show ?thesis by (simp add: settle_def)
next
  case False
  let ?r = "resume (waiting (decide d (fst s))) (decide d (fst s))"
  have "pending (decide d (fst s)) = None" by simp
  from resume_onePrompt[OF this, of "waiting (decide d (fst s))"]
  have em: "snd ?r = map_option (\<lambda>p. fst (snd p)) (pending (fst ?r))"
    and wt: "pending (fst ?r) = None \<longrightarrow> waiting (fst ?r) = []" by simp_all
  have "settle d s = (fst ?r, shown (snd ?r) ((snd s)\<lparr>options := None\<rparr>))"
    using False by (auto simp add: settle_def Let_def)
  then show ?thesis
    using em wt by (simp only: onePrompt_def fst_conv snd_conv options_shown)
qed

lemma request_onePrompt:
  "onePrompt s \<Longrightarrow> onePrompt (gateStep s (Requested caller opts category))"
  by (cases "pending (fst s)")
     (auto simp: gateStep_def request_def onePrompt_def Let_def shown_def handleConfirmationRequest_def)

lemma step_onePrompt: "onePrompt s \<Longrightarrow> onePrompt (gateStep s e)"
proof (cases e)
  case (Requested caller opts category)
  then show "onePrompt s \<Longrightarrow> onePrompt (gateStep s e)" by (simp add: request_onePrompt)
next
  case (Confirmed dontAsk)
  then show "onePrompt s \<Longrightarrow> onePrompt (gateStep s e)" by (simp add: gateStep_def settle_onePrompt)
next
  case (Declined fb)
  then show "onePrompt s \<Longrightarrow> onePrompt (gateStep s e)" by (simp add: gateStep_def settle_onePrompt)
qed

lemma run_onePrompt: "onePrompt s \<Longrightarrow> onePrompt (gateRun s events)"
  by (induction events arbitrary: s) (simp_all add: gateRun_def step_onePrompt)

lemma idle_onePrompt: "onePrompt (idle fl)"
  by (simp add: idle_def onePrompt_def)

lemma second_request_waits:
  assumes "pending (fst s) \<noteq> None" and "\<not> covered (flags (fst s)) category"
  shows "gateStep s (Requested caller opts category)
         = ((fst s)\<lparr>waiting := waiting (fst s) @ [(caller, opts, category)]\<rparr>, snd s)"
  using assms by (auto simp: gateStep_def request_def Let_def shown_def)

lemma waiter_follows:
  assumes "onePrompt s" and "pending (fst s) = Some p"
      and "waiting (fst s) = (caller, opts, category) # rest"
      and "\<not> covered (flags (fst s)) category"
  shows "pending (fst (gateStep s (Declined fb))) = Some (caller, opts, category)
       \<and> waiting (fst (gateStep s (Declined fb))) = rest
       \<and> options (snd (gateStep s (Declined fb))) = Some opts"
proof -
  obtain c0 o0 k0 where p: "p = (c0, o0, k0)" by (cases p)
  from assms(1,2) have o: "options (snd s) \<noteq> None" by (simp add: onePrompt_def)
  have d: "waiting (decide (RejectedWith fb) (fst s)) = (caller, opts, category) # rest"
          "flags (decide (RejectedWith fb) (fst s)) = flags (fst s)"
    using assms(2,3) p by (simp_all add: decide_def)
  show ?thesis
    using o d assms(4)
    by (simp add: gateStep_def settle_def Let_def shown_def handleConfirmationRequest_def)
qed

lemma covered_resolves:
  assumes "covered (flags (fst s)) category"
  shows "gateStep s (Requested caller opts category)
         = ((fst s)\<lparr>resolved := resolved (fst s) @ [(caller, Approved)]\<rparr>, snd s)"
  using assms by (simp add: gateStep_def request_def Let_def shown_def)

lemma twoRequests_reached:
  "gateRun (idle noFlags) [Requested 1 askStop ''bash'', Requested 2 askUpdate ''bash''] = twoRequests"
  by (simp add: twoRequests_def gateRun_def gateStep_def request_def idle_def noFlags_def covered_def
        shown_def handleConfirmationRequest_def Let_def)

section \<open>The claims\<close>



text \<open>
  C2, as stated: a rejection with feedback text \<open>f\<close> returns a failure whose error is exactly
  \<open>f\<close>, for every \<open>f\<close>. It fails for the empty text: the human rejects
  \<^verbatim>\<open>systemctl stop nginx\<close> with feedback \<^verbatim>\<open>""\<close> and the error is the tool's own
  cancellation message.
\<close>

theorem feedback_verbatim_counterexample:
  "snd (invoke (rejecting (Some []) noFlags) sandbox (Systemctl ''stop'' (Some ''nginx'')))
     = [Confirm \<lparr>operation = ''Run systemctl command'', filename = ''systemctl stop nginx'',
                 showVSCodeOpen = False, content = Some ''Command: sudo systemctl stop nginx''\<rparr> ''bash'']
   \<and> requestConfirmation (rejecting (Some []) noFlags)
        \<lparr>operation = ''Run systemctl command'', filename = ''systemctl stop nginx'',
         showVSCodeOpen = False, content = Some ''Command: sudo systemctl stop nginx''\<rparr> ''bash''
     = \<lparr>confirmed = False, dontAskAgain = False, feedback = Some []\<rparr>
   \<and> error (fst (invoke (rejecting (Some []) noFlags) sandbox (Systemctl ''stop'' (Some ''nginx''))))
     = Some ''Systemctl command cancelled by user''
   \<and> error (fst (invoke (rejecting (Some []) noFlags) sandbox (Systemctl ''stop'' (Some ''nginx''))))
     \<noteq> Some []"
  by (simp add: rejecting_def noFlags_def invoke_def SystemctlTool_execute_def SystemctlTool_stop_def
        SystemctlTool_runCommand_def truthy_def Let_def orElse_def)

text \<open>
  C2, amended. With no session flag set and a human who rejects every request with the same
  feedback, an invocation asks for confirmation exactly when it is a gated operation whose
  arguments pass the checks before the confirmation check. It then returns a failure and has
  run no command other than the probe \<^verbatim>\<open>docker --version\<close>. The error of the failure is
  the feedback text \<open>f\<close> when the feedback is a text \<open>f\<close> that is not empty, and the tool's own
  cancellation message when the feedback is the empty text or is absent.
\<close>

theorem rejection_returns_feedback:
  assumes "\<not> bashCommands (getSessionFlags w)" and "\<not> allOperations (getSessionFlags w)"
      and "\<And>opts. \<not> confirmed (requestConfirmation w opts ''bash'')"
      and "\<And>opts. feedback (requestConfirmation w opts ''bash'') = fb"
  shows "(confirmations (snd (invoke w sb call)) \<noteq> []) = mutating w call
       \<and> (mutating w call \<longrightarrow>
            \<not> success (fst (invoke w sb call))
            \<and> set (commands (snd (invoke w sb call))) \<subseteq> {Exec ''docker --version''}
            \<and> (\<forall>f. fb = Some f \<and> f \<noteq> [] \<longrightarrow> fst (invoke w sb call) = failed f)
            \<and> (fb = Some [] \<or> fb = None \<longrightarrow> fst (invoke w sb call) = failed (cancelMessage call)))"
proof -
  have gated: "confirmations (snd (invoke w sb call)) \<noteq> []
               \<and> fst (invoke w sb call) = failed (orElse fb (cancelMessage call))
               \<and> set (commands (snd (invoke w sb call))) \<subseteq> {Exec ''docker --version''}"
    if m: "mutating w call"
  proof (cases call)
    case (Systemctl op name)
    with m have "mutating w (Systemctl op name)" by simp
    from systemctl_gated[OF this] systemctl_runCommand_reject[OF assms] Systemctl
    show ?thesis by (simp add: invoke_def)
  next
    case (Apt op args)
    with m have "mutating w (Apt op args)" by simp
    from apt_gated[OF this] apt_runCommand_reject[OF assms] Apt
    show ?thesis by (simp add: invoke_def)
  next
    case (Network op args)
    with m show ?thesis by simp
  next
    case (Disk op args)
    with m show ?thesis by simp
  next
    case (CodeExecution op args)
    with m have m': "mutating w (CodeExecution op args)" by simp
    from code_gated_docker[OF m'] obtain out err where
      d: "execAsync w ''docker --version'' = Completed out err" and l: "truthy (arg args 1)" by blast
    from code_gated[OF m', of sb] obtain code where
      c: "code \<noteq> None" "code \<noteq> Some (Text [])"
         "CodeExecutionTool_execute w sb op args
               = CodeExecutionTool_runCode w sb code (arg args 1) (if op = ''run'' then arg args 2 else None)"
      by blast
    from runCode_reject[OF assms d c(1) c(2) l] c(3) CodeExecution
    show ?thesis by (simp add: invoke_def)
  qed
  have ungated: "confirmations (snd (invoke w sb call)) = []" if n: "\<not> mutating w call"
  proof (cases call)
    case (Systemctl op name)
    with n have "\<not> mutating w (Systemctl op name)" by simp
    from systemctl_ungated[OF this] Systemctl show ?thesis by (simp add: invoke_def)
  next
    case (Apt op args)
    with n have "\<not> mutating w (Apt op args)" by simp
    from apt_ungated[OF this] Apt show ?thesis by (simp add: invoke_def)
  next
    case (Network op args)
    then show ?thesis by (simp add: invoke_def network_free)
  next
    case (Disk op args)
    then show ?thesis by (simp add: invoke_def disk_free)
  next
    case (CodeExecution op args)
    with n have "\<not> mutating w (CodeExecution op args)" by simp
    from code_ungated[OF this] CodeExecution show ?thesis by (simp add: invoke_def)
  qed
  have verbatim: "orElse fb d = f" if "fb = Some f \<and> f \<noteq> []" for f d
    using that by (simp add: orElse_nonempty)
  have fallback: "orElse fb d = d" if "fb = Some [] \<or> fb = None" for d
    using that by (auto simp: orElse_empty)
  show ?thesis
  proof (cases "mutating w call")
    case True
    from gated[OF True] have
      asked: "confirmations (snd (invoke w sb call)) \<noteq> []" and
      result: "fst (invoke w sb call) = failed (orElse fb (cancelMessage call))" and
      ran: "set (commands (snd (invoke w sb call))) \<subseteq> {Exec ''docker --version''}"
      by blast+
    from result have "\<not> success (fst (invoke w sb call))" by simp
    moreover from result verbatim
    have "\<forall>f. fb = Some f \<and> f \<noteq> [] \<longrightarrow> fst (invoke w sb call) = failed f" by simp
    moreover from result fallback
    have "fb = Some [] \<or> fb = None \<longrightarrow> fst (invoke w sb call) = failed (cancelMessage call)" by simp
    ultimately show ?thesis using True asked ran by simp
  next
    case False
    with ungated show ?thesis by simp
  qed
qed

theorem rejection_returns_feedback_witness:
  "\<not> bashCommands (getSessionFlags (rejecting (Some ''not now'') noFlags))
   \<and> \<not> allOperations (getSessionFlags (rejecting (Some ''not now'') noFlags))
   \<and> \<not> confirmed (requestConfirmation (rejecting (Some ''not now'') noFlags) askUpdate ''bash'')
   \<and> feedback (requestConfirmation (rejecting (Some ''not now'') noFlags) askUpdate ''bash'') = Some ''not now''
   \<and> mutating (rejecting (Some ''not now'') noFlags) (Apt ''install'' [''nginx''])
   \<and> fst (invoke (rejecting (Some ''not now'') noFlags) sandbox (Apt ''install'' [''nginx''])) = failed ''not now''
   \<and> set (commands (snd (invoke (rejecting (Some ''not now'') noFlags) sandbox (Apt ''install'' [''nginx'']))))
       \<subseteq> {Exec ''docker --version''}
   \<and> mutating (rejecting (Some []) noFlags) (Systemctl ''stop'' (Some ''nginx''))
   \<and> fst (invoke (rejecting (Some []) noFlags) sandbox (Systemctl ''stop'' (Some ''nginx'')))
       = failed ''Systemctl command cancelled by user''
   \<and> mutating (rejecting None noFlags) (CodeExecution ''run'' [''print(1)'', ''python''])
   \<and> fst (invoke (rejecting None noFlags) sandbox (CodeExecution ''run'' [''print(1)'', ''python'']))
       = failed ''Code execution cancelled by user''
   \<and> \<not> mutating (rejecting None noFlags) (Disk ''usage'' [])
   \<and> confirmations (snd (invoke (rejecting None noFlags) sandbox (Disk ''usage'' []))) = []"
proof -
  have a: "\<not> bashCommands (getSessionFlags (rejecting fb noFlags))"
    and b: "\<not> allOperations (getSessionFlags (rejecting fb noFlags))"
    and c: "\<And>opts. \<not> confirmed (requestConfirmation (rejecting fb noFlags) opts ''bash'')"
    and d: "\<And>opts. feedback (requestConfirmation (rejecting fb noFlags) opts ''bash'') = fb" for fb
    by (simp_all add: rejecting_def noFlags_def)
  have m1: "mutating (rejecting (Some ''not now'') noFlags) (Apt ''install'' [''nginx''])"
    by (simp add: arg_def truthy_def)
  have m2: "mutating (rejecting (Some []) noFlags) (Systemctl ''stop'' (Some ''nginx''))"
    by (simp add: truthy_def)
  have m3: "mutating (rejecting None noFlags) (CodeExecution ''run'' [''print(1)'', ''python''])"
    by (simp add: arg_def truthy_def rejecting_def)
  have m4: "\<not> mutating (rejecting None noFlags) (Disk ''usage'' [])"
    by simp
  from rejection_returns_feedback[OF a b c d, of "Some ''not now''" sandbox "Apt ''install'' [''nginx'']"] m1
  have r1: "fst (invoke (rejecting (Some ''not now'') noFlags) sandbox (Apt ''install'' [''nginx''])) = failed ''not now''
            \<and> set (commands (snd (invoke (rejecting (Some ''not now'') noFlags) sandbox (Apt ''install'' [''nginx'']))))
                \<subseteq> {Exec ''docker --version''}"
    by simp
  from rejection_returns_feedback[OF a b c d, of "Some []" sandbox "Systemctl ''stop'' (Some ''nginx'')"] m2
  have r2: "fst (invoke (rejecting (Some []) noFlags) sandbox (Systemctl ''stop'' (Some ''nginx'')))
              = failed ''Systemctl command cancelled by user''"
    by simp
  from rejection_returns_feedback[OF a b c d, of None sandbox "CodeExecution ''run'' [''print(1)'', ''python'']"] m3
  have r3: "fst (invoke (rejecting None noFlags) sandbox (CodeExecution ''run'' [''print(1)'', ''python'']))
              = failed ''Code execution cancelled by user''"
    by simp
  from rejection_returns_feedback[OF a b c d, of None sandbox "Disk ''usage'' []"] m4
  have r4: "confirmations (snd (invoke (rejecting None noFlags) sandbox (Disk ''usage'' []))) = []"
    by simp
  from a[of "Some ''not now''"] b[of "Some ''not now''"] c[of "Some ''not now''" askUpdate]
       d[of "Some ''not now''" askUpdate] m1 m2 m3 m4 r1 r2 r3 r4
  show ?thesis by blast
qed




text \<open>
  C4. In every state the gate reaches from the idle state, the dialog shows exactly the one
  outstanding request, or nothing when none is outstanding, and callers wait only behind an
  outstanding request. A request made while one is outstanding, and not covered by a flag, joins
  the waiting callers and changes neither the outstanding request nor the dialog; when the
  outstanding one is declined the first waiting caller's request becomes the outstanding one
  and is shown. A request that a flag covers resolves at once as approved and shows nothing.
\<close>

theorem one_pending_confirmation:
  "onePrompt (gateRun (idle fl) events)
   \<and> (pending (fst s) \<noteq> None \<and> \<not> covered (flags (fst s)) category
        \<longrightarrow> gateStep s (Requested caller opts category)
            = ((fst s)\<lparr>waiting := waiting (fst s) @ [(caller, opts, category)]\<rparr>, snd s))
   \<and> (onePrompt s \<and> pending (fst s) = Some p \<and> waiting (fst s) = (caller, opts, category) # rest
        \<and> \<not> covered (flags (fst s)) category
        \<longrightarrow> pending (fst (gateStep s (Declined fb))) = Some (caller, opts, category)
            \<and> waiting (fst (gateStep s (Declined fb))) = rest
            \<and> options (snd (gateStep s (Declined fb))) = Some opts)
   \<and> (covered (flags (fst s)) category
        \<longrightarrow> gateStep s (Requested caller opts category)
            = ((fst s)\<lparr>resolved := resolved (fst s) @ [(caller, Approved)]\<rparr>, snd s))"
  using run_onePrompt[OF idle_onePrompt, of fl events]
    second_request_waits[of s category caller opts]
    waiter_follows[of s p caller opts category rest fb]
    covered_resolves[of s category caller opts]
  by blast

theorem one_pending_confirmation_witness:
  "gateRun (idle noFlags) [Requested 1 askStop ''bash'', Requested 2 askUpdate ''bash''] = twoRequests
   \<and> onePrompt twoRequests
   \<and> pending (fst twoRequests) = Some (1, askStop, ''bash'')
   \<and> waiting (fst twoRequests) = [(2, askUpdate, ''bash'')]
   \<and> \<not> covered (flags (fst twoRequests)) ''bash''
   \<and> gateStep twoRequests (Requested 3 askStop ''bash'')
     = ((fst twoRequests)\<lparr>waiting := waiting (fst twoRequests) @ [(3, askStop, ''bash'')]\<rparr>, snd twoRequests)
   \<and> pending (fst (gateStep twoRequests (Declined (Some ''not now'')))) = Some (2, askUpdate, ''bash'')
   \<and> waiting (fst (gateStep twoRequests (Declined (Some ''not now'')))) = []
   \<and> options (snd (gateStep twoRequests (Declined (Some ''not now'')))) = Some askUpdate
   \<and> covered (flags (fst (idle (noFlags\<lparr>allOperations := True\<rparr>)))) ''bash''
   \<and> gateStep (idle (noFlags\<lparr>allOperations := True\<rparr>)) (Requested 1 askStop ''bash'')
     = ((fst (idle (noFlags\<lparr>allOperations := True\<rparr>)))
          \<lparr>resolved := resolved (fst (idle (noFlags\<lparr>allOperations := True\<rparr>))) @ [(1, Approved)]\<rparr>,
        snd (idle (noFlags\<lparr>allOperations := True\<rparr>)))"
proof -
  from one_pending_confirmation [where fl = noFlags
         and events = "[Requested 1 askStop ''bash'', Requested 2 askUpdate ''bash'']"]
  have "onePrompt (gateRun (idle noFlags) [Requested 1 askStop ''bash'', Requested 2 askUpdate ''bash''])"
    by blast
  then have inv: "onePrompt twoRequests" by (simp only: twoRequests_reached)
  have p: "pending (fst twoRequests) \<noteq> None" "pending (fst twoRequests) = Some (1, askStop, ''bash'')"
    and w: "waiting (fst twoRequests) = (2, askUpdate, ''bash'') # []"
    and n: "\<not> covered (flags (fst twoRequests)) ''bash''"
    by (simp_all add: twoRequests_def noFlags_def covered_def)
  have cv: "covered (flags (fst (idle (noFlags\<lparr>allOperations := True\<rparr>)))) ''bash''"
    by (simp add: idle_def covered_def)
  from one_pending_confirmation [where s = twoRequests and category = "''bash''" and caller = 3 and opts = askStop]
       p n
  have second: "gateStep twoRequests (Requested 3 askStop ''bash'')
     = ((fst twoRequests)\<lparr>waiting := waiting (fst twoRequests) @ [(3, askStop, ''bash'')]\<rparr>, snd twoRequests)"
    by blast
  from one_pending_confirmation [where s = twoRequests and category = "''bash''" and caller = 2
         and opts = askUpdate and p = "(1, askStop, ''bash'')" and rest = "[]" and fb = "Some ''not now''"]
       inv p w n
  have next_shown: "pending (fst (gateStep twoRequests (Declined (Some ''not now'')))) = Some (2, askUpdate, ''bash'')
       \<and> waiting (fst (gateStep twoRequests (Declined (Some ''not now'')))) = []
       \<and> options (snd (gateStep twoRequests (Declined (Some ''not now'')))) = Some askUpdate"
    by blast
  from one_pending_confirmation [where s = "idle (noFlags\<lparr>allOperations := True\<rparr>)" and category = "''bash''"
         and caller = 1 and opts = askStop] cv
  have approved: "gateStep (idle (noFlags\<lparr>allOperations := True\<rparr>)) (Requested 1 askStop ''bash'')
     = ((fst (idle (noFlags\<lparr>allOperations := True\<rparr>)))
          \<lparr>resolved := resolved (fst (idle (noFlags\<lparr>allOperations := True\<rparr>))) @ [(1, Approved)]\<rparr>,
        snd (idle (noFlags\<lparr>allOperations := True\<rparr>)))"
    by blast
  show ?thesis
    using twoRequests_reached inv p(2) w n second next_shown cv approved
    by blast
qed

text \<open>
  C5. Every result of \<^verbatim>\<open>execute\<close> of the five tools has, when it is a success, an output
  that is present and not empty and no error, and when it is a failure, an error that is
  present and not empty.
\<close>

theorem results_wellFormed:
  "(success (fst (invoke w sb call))
      \<longrightarrow> present (outputText (fst (invoke w sb call))) \<and> error (fst (invoke w sb call)) = None)
   \<and> (\<not> success (fst (invoke w sb call)) \<longrightarrow> present (error (fst (invoke w sb call))))"
proof -
  have "wellFormed (fst (invoke w sb call))"
  proof (cases call)
    case (Systemctl op serviceName)
    then show ?thesis by (simp add: invoke_def systemctl_wf)
  next
    case (Apt op args)
    then show ?thesis by (simp add: invoke_def apt_wf)
  next
    case (Network op args)
    then show ?thesis by (simp add: invoke_def network_wf)
  next
    case (Disk op args)
    then show ?thesis by (simp add: invoke_def disk_wf)
  next
    case (CodeExecution op args)
    then show ?thesis by (simp add: invoke_def code_wf)
  qed
  then show ?thesis by (simp add: wellFormed_def split: if_splits)
qed

theorem results_wellFormed_witness:
  "fst (invoke (rejecting (Some []) noFlags) sandbox (Apt ''upgrade'' [])) = failed ''Apt command cancelled by user''
   \<and> \<not> success (fst (invoke (rejecting (Some []) noFlags) sandbox (Apt ''upgrade'' [])))
   \<and> present (error (fst (invoke (rejecting (Some []) noFlags) sandbox (Apt ''upgrade'' []))))
   \<and> success (fst (invoke (rejecting None noFlags) sandbox (Disk ''free'' [])))
   \<and> present (outputText (fst (invoke (rejecting None noFlags) sandbox (Disk ''free'' []))))
   \<and> error (fst (invoke (rejecting None noFlags) sandbox (Disk ''free'' []))) = None"
  using results_wellFormed [of "rejecting (Some []) noFlags" sandbox "Apt ''upgrade'' []"]
    results_wellFormed [of "rejecting None noFlags" sandbox "Disk ''free'' []"]
  by (simp add: rejecting_def noFlags_def invoke_def AptTool_execute_def AptTool_upgrade_def
        AptTool_runCommand_def Let_def orElse_def DiskTool_execute_def DiskTool_free_def
        DiskTool_runCommand_def)

text \<open>
  C6, as stated: while a response is streaming every update appends an entry or changes only
  the most recent one. It fails for a tool result: after two tool calls, the result of the first
  changes the entry before the last and appends nothing.
\<close>

theorem only_last_entry_mutated_counterexample:
  "history (fst (processChunks (emptyChat, None) [(1, toolCallsChunk [callA, callB])]))
     = [(plainEntry Type_tool_call ''Executing...'' 1)\<lparr>entry_toolCall := Some callA\<rparr>,
        (plainEntry Type_tool_call ''Executing...'' 1)\<lparr>entry_toolCall := Some callB\<rparr>]
   \<and> history (fst (processChunk (processChunks (emptyChat, None) [(1, toolCallsChunk [callA, callB])])
                                 (2, toolResultChunk callA (succeeded ''done''))))
     = [(plainEntry Type_tool_result ''done'' 1)\<lparr>entry_toolCall := Some callA, entry_toolResult := Some (succeeded ''done'')\<rparr>,
        (plainEntry Type_tool_call ''Executing...'' 1)\<lparr>entry_toolCall := Some callB\<rparr>]
   \<and> (plainEntry Type_tool_result ''done'' 1)\<lparr>entry_toolCall := Some callA, entry_toolResult := Some (succeeded ''done'')\<rparr>
     \<noteq> (plainEntry Type_tool_call ''Executing...'' 1)\<lparr>entry_toolCall := Some callA\<rparr>"
  by (simp add: processChunks_def processChunk_def onToolCalls_def onToolResult_def emptyChat_def
        toolCallsChunk_def toolResultChunk_def chunkOf_def callA_def callB_def plainEntry_def
        streaming_def sameCall_def resultContent_def orElse_def succeeded_def Let_def
        setHistory_def addEntry_def)

text \<open>
  C6, amended. No streaming event deletes an entry: the history never gets shorter and an
  entry keeps its position. A content event appends an entry or changes only the most recent
  one. Every event changes only entries marked as streaming and, for a tool result, the
  tool-call entries with its call id, wherever they are; an entry that is neither streaming
  nor a tool call is the same after any sequence of events, and after a whole turn.
\<close>

theorem history_frame:
  "length (history (fst s)) \<le> length (history (fst (processChunks s chunks)))
   \<and> (\<forall>i < length (history (fst s)). settled (history (fst s) ! i)
          \<longrightarrow> history (fst (processChunks s chunks)) ! i = history (fst s) ! i)
   \<and> (\<forall>i < length (history (fst s)).
          history (fst (processChunk s (now, chunk))) ! i \<noteq> history (fst s) ! i
          \<longrightarrow> touchable chunk (history (fst s) ! i))
   \<and> (chunk_type chunk = Chunk_content
        \<longrightarrow> take (length (history (fst s)) - 1) (history (fst (processChunk s (now, chunk))))
            = butlast (history (fst s)))
   \<and> length (history chat) < length (history (processUserMessage userInput now chunks thrown chat))
   \<and> (\<forall>i < length (history chat). settled (history chat ! i)
          \<longrightarrow> history (processUserMessage userInput now chunks thrown chat) ! i = history chat ! i)"
  using run_frame[of s chunks] step_frame[of _ s now chunk] step_content[of chunk s now]
    turn_frame[of chat userInput now chunks thrown]
  by blast

theorem history_frame_witness:
  "processChunks (emptyChat, None) [(1, toolCallsChunk [callA, callB])] = twoCalls
   \<and> (0::nat) < length (history (fst twoCalls))
   \<and> history (fst (processChunk twoCalls (2, toolResultChunk callA (succeeded ''done'')))) ! 0
       \<noteq> history (fst twoCalls) ! 0
   \<and> touchable (toolResultChunk callA (succeeded ''done'')) (history (fst twoCalls) ! 0)
   \<and> chunk_type (contentChunk ''Hel'') = Chunk_content
   \<and> take (length (history (fst (addEntry (plainEntry Type_user ''hi'' 0) emptyChat, None))) - 1)
        (history (fst (processChunk (addEntry (plainEntry Type_user ''hi'' 0) emptyChat, None)
                        (1, contentChunk ''Hel'')))) = []
   \<and> settled (history (fst (addEntry (plainEntry Type_user ''hi'' 0) emptyChat, None)) ! 0)
   \<and> history (fst (processChunks (addEntry (plainEntry Type_user ''hi'' 0) emptyChat, None)
                      [(1, contentChunk ''Hel''), (2, contentChunk ''lo'')])) ! 0
     = plainEntry Type_user ''hi'' 0
   \<and> history (processUserMessage ''again'' 1 [(1, contentChunk ''Hel''), (2, contentChunk ''lo'')] None
                (addEntry (plainEntry Type_user ''hi'' 0) emptyChat)) ! 0
     = plainEntry Type_user ''hi'' 0"
proof -
  let ?s = "(addEntry (plainEntry Type_user ''hi'' 0) emptyChat, None :: ChatEntry option)"
  have changed: "history (fst (processChunk twoCalls (2, toolResultChunk callA (succeeded ''done'')))) ! 0
       \<noteq> history (fst twoCalls) ! 0"
    by (simp add: twoCalls_def processChunk_def onToolResult_def toolResultChunk_def chunkOf_def
          emptyChat_def setHistory_def streaming_def plainEntry_def sameCall_def callA_def)
  have l: "(0::nat) < length (history (fst twoCalls))" by (simp add: twoCalls_def)
  have st: "settled (history (fst ?s) ! 0)"
    by (simp add: settled_def streaming_def plainEntry_def addEntry_def setHistory_def emptyChat_def)
  have c: "chunk_type (contentChunk ''Hel'') = Chunk_content" by (simp add: contentChunk_def chunkOf_def)
  from history_frame [where s = twoCalls and chunks = "[]" and now = 2
         and chunk = "toolResultChunk callA (succeeded ''done'')"] l changed
  have t: "touchable (toolResultChunk callA (succeeded ''done'')) (history (fst twoCalls) ! 0)" by blast
  from history_frame [where s = ?s and chunks = "[(1, contentChunk ''Hel''), (2, contentChunk ''lo'')]"
         and now = 1 and chunk = "contentChunk ''Hel''"
         and chat = "addEntry (plainEntry Type_user ''hi'' 0) emptyChat" and userInput = "''again''"
         and thrown = None]
       st c l changed t
  have "?thesis \<longleftrightarrow> processChunks (emptyChat, None) [(1, toolCallsChunk [callA, callB])] = twoCalls"
    by (simp add: emptyChat_def)
  then show ?thesis using twoCalls_reached by blast
qed

text \<open>
  C7, as stated: the catalog name of a protocol tool is the server name, two underscores and
  the tool's name, and names are globally unique. Two pairs of server and tool can share a
  name: server \<^verbatim>\<open>a\<close> with tool \<^verbatim>\<open>_b\<close>, and server \<^verbatim>\<open>a_\<close> with tool \<^verbatim>\<open>b\<close>.
\<close>

theorem protocol_names_counterexample:
  "(''a'', ''_b'') \<noteq> (''a_'', ''b'')
   \<and> catalogName ''a'' ''_b'' = ''a___b''
   \<and> catalogName ''a_'' ''b'' = ''a___b''"
  by (simp add: catalogName_def)

text \<open>
  C7, amended. The catalog name is the server name, two underscores and the tool's own name.
  Two distinct servers with a tool of the same name get distinct catalog names. No catalog
  name of a protocol tool is the name of a built-in tool. Distinct pairs of server and tool
  get distinct names when neither server name ends in an underscore or has two underscores
  in a row.
\<close>

theorem protocol_names_distinct:
  "catalogName s t = s @ ''__'' @ t
   \<and> (s1 \<noteq> s2 \<longrightarrow> catalogName s1 t \<noteq> catalogName s2 t)
   \<and> catalogName s t \<notin> set builtinNames
   \<and> (separable s1 \<and> separable s2 \<and> (s1, t1) \<noteq> (s2, t2)
        \<longrightarrow> catalogName s1 t1 \<noteq> catalogName s2 t2)"
proof -
  have "catalogName s1 t1 \<noteq> catalogName s2 t2"
    if "separable s1 \<and> separable s2 \<and> (s1, t1) \<noteq> (s2, t2)"
    using catalog_unique[of s1 s2 t1 t2] that by auto
  then show ?thesis
    using catalog_same_tool[of s1 t s2] catalog_not_builtin[of s t]
    by (auto simp: catalogName_def)
qed

theorem protocol_names_distinct_witness:
  "''github'' \<noteq> ''gitlab''
   \<and> catalogName ''github'' ''create_issue'' \<noteq> catalogName ''gitlab'' ''create_issue''
   \<and> catalogName ''brave_search'' ''search'' = ''brave_search__search''
   \<and> separable ''brave_search'' \<and> separable ''brave''
   \<and> (''brave_search'', ''search'') \<noteq> (''brave'', ''search__search'')
   \<and> catalogName ''brave_search'' ''search'' \<noteq> catalogName ''brave'' ''search__search''"
proof -
  have a: "''github'' \<noteq> ''gitlab''" by simp
  have b: "separable ''brave_search''" "separable ''brave''"
    by (simp_all add: separable_def)
  have c: "(''brave_search'', ''search'') \<noteq> (''brave'', ''search__search'')" by simp
  from protocol_names_distinct [where s = "''github''" and t = "''create_issue''"
          and ?s1.0 = "''github''" and ?s2.0 = "''gitlab''"] a
  have d: "catalogName ''github'' ''create_issue'' \<noteq> catalogName ''gitlab'' ''create_issue''"
    by blast
  from protocol_names_distinct [where s = "''brave_search''" and t = "''search''"
          and ?s1.0 = "''brave_search''" and ?t1.0 = "''search''"
          and ?s2.0 = "''brave''" and ?t2.0 = "''search__search''"] b c
  have e: "catalogName ''brave_search'' ''search'' = ''brave_search'' @ ''__'' @ ''search''"
    and f: "catalogName ''brave_search'' ''search'' \<noteq> catalogName ''brave'' ''search__search''"
    by blast+
  from e have e': "catalogName ''brave_search'' ''search'' = ''brave_search__search''" by simp
  from a b c d e' f show ?thesis by blast
qed







text \<open>
  C10. Both headless drivers set \<^verbatim>\<open>allOperations\<close> before the agent runs; in the run no
  invocation calls \<^verbatim>\<open>requestConfirmation\<close>, the flag is still set at the end, and every
  result is the one of the approved invocation.
\<close>

theorem headless_never_prompts:
  "confirmations (fst (snd (processPromptHeadless w sb calls))) = []
   \<and> allOperations (snd (snd (processPromptHeadless w sb calls)))
   \<and> fst (processPromptHeadless w sb calls) = map (\<lambda>call. fst (invoke (approving w) sb call)) calls
   \<and> confirmations (fst (snd (handleCommitAndPushHeadless w sb calls))) = []
   \<and> allOperations (snd (snd (handleCommitAndPushHeadless w sb calls)))
   \<and> fst (handleCommitAndPushHeadless w sb calls) = map (\<lambda>call. fst (invoke (approving w) sb call)) calls"
  by (simp add: processPromptHeadless_def handleCommitAndPushHeadless_def headless_run
        confirmations_concat_commands)

theorem headless_never_prompts_witness:
  "processPromptHeadless (rejecting None noFlags) sandbox [Systemctl ''enable'' (Some ''ssh''), Apt ''update'' []]
     = ([succeeded ''ok'', succeeded ''ok''],
        [Exec ''sudo systemctl enable ssh'', Exec ''sudo apt update''],
        noFlags\<lparr>allOperations := True\<rparr>)
   \<and> confirmations (fst (snd (processPromptHeadless (rejecting None noFlags) sandbox
                                [Systemctl ''enable'' (Some ''ssh''), Apt ''update'' []]))) = []"
  using headless_never_prompts [of "rejecting None noFlags" sandbox "[Systemctl ''enable'' (Some ''ssh''), Apt ''update'' []]"]
  by (simp add: processPromptHeadless_def rejecting_def noFlags_def setSessionFlag_def invoke_def
        SystemctlTool_execute_def SystemctlTool_enable_def SystemctlTool_runCommand_def
        AptTool_execute_def AptTool_update_def AptTool_runCommand_def
        truthy_def Let_def commandOutput_def nonEmptyOr_def trim_ok)

end
